theory Spec2Isabelle
  imports Complex_Main "HOL-Library.Sublist"
begin

section \<open>Python values of the MCP server\<close>

text \<open>
  The development embeds \<^verbatim>\<open>src/mcp_server.py\<close>: the license gate
  \<^verbatim>\<open>validate_license_key\<close> and the dispatcher \<^verbatim>\<open>call_tool\<close>.

  A Python \<^verbatim>\<open>str\<close> is a sequence of Unicode code points, and slicing
  (\<^verbatim>\<open>text[:15000]\<close>) counts code points, so a string is a list of code points here.
  \<open>ascii\<close> turns an ASCII literal into such a list.
\<close>

type_synonym pystr = "nat list"

definition ascii :: "string \<Rightarrow> pystr" where
  "ascii s = map of_char s"

text \<open>
  A float is a real number or one of the three non-finite values that
  \<^verbatim>\<open>json.loads\<close> accepts. Only its truth value and its order against an integer are
  used by the program.
\<close>

datatype pyfloat = Finite real | NaN | PosInf | NegInf

text \<open>
  The values that reach the program: decoded JSON (the body of the verification response,
  the arguments of a tool call). A dict is its list of items, with distinct keys.
\<close>

datatype pyval =
    PNone
  | PBool bool
  | PInt int
  | PFloat pyfloat
  | PStr pystr
  | PList "pyval list"
  | PDict "(pystr \<times> pyval) list"

text \<open>
  An exception is an instance of a subclass of \<^verbatim>\<open>Exception\<close>: its class name and
  what \<^verbatim>\<open>str(e)\<close> returns. Signals that derive from \<^verbatim>\<open>BaseException\<close> only
  (task cancellation, interpreter exit) are not exceptions in this sense and are outside
  the model, as they are outside \<^verbatim>\<open>except Exception\<close>.
\<close>

datatype exn = Exn (exn_class: string) (exn_str: pystr)

text \<open>Truth value testing, as \<^verbatim>\<open>not x\<close> and \<^verbatim>\<open>x and y\<close> use it.\<close>

fun truthy :: "pyval \<Rightarrow> bool" where
  "truthy PNone = False"
| "truthy (PBool b) = b"
| "truthy (PInt n) = (n \<noteq> 0)"
| "truthy (PFloat f) = (f \<noteq> Finite 0)"
| "truthy (PStr s) = (s \<noteq> [])"
| "truthy (PList xs) = (xs \<noteq> [])"
| "truthy (PDict kvs) = (kvs \<noteq> [])"

fun type_name :: "pyval \<Rightarrow> pystr" where
  "type_name PNone = ascii ''NoneType''"
| "type_name (PBool b) = ascii ''bool''"
| "type_name (PInt n) = ascii ''int''"
| "type_name (PFloat f) = ascii ''float''"
| "type_name (PStr s) = ascii ''str''"
| "type_name (PList xs) = ascii ''list''"
| "type_name (PDict kvs) = ascii ''dict''"

definition quoted :: "pystr \<Rightarrow> pystr" where
  \<comment> \<open>The text between two apostrophes (code point 39).\<close>
  "quoted s = [39] @ s @ [39]"

text \<open>
  \<^verbatim>\<open>d.get(k, default)\<close> on any value: a dict answers, every other type has no
  attribute \<^verbatim>\<open>get\<close>.
\<close>

definition py_get :: "pyval \<Rightarrow> pystr \<Rightarrow> pyval \<Rightarrow> exn + pyval" where
  "py_get d k dflt =
     (case d of
        PDict kvs \<Rightarrow> Inr (case map_of kvs k of None \<Rightarrow> dflt | Some v \<Rightarrow> v)
      | _ \<Rightarrow> Inl (Exn ''AttributeError''
                 (quoted (type_name d) @ ascii '' object has no attribute '' @ quoted (ascii ''get''))))"

text \<open>
  The arguments of a tool call are a dict: the MCP server runtime passes
  \<^verbatim>\<open>req.params.arguments or {}\<close>. \<^verbatim>\<open>arguments[k]\<close> raises
  \<^verbatim>\<open>KeyError(k)\<close> on a missing key, whose \<^verbatim>\<open>str\<close> is the key's
  \<^verbatim>\<open>repr\<close>; the keys used by the program are ASCII literals without quotes or
  backslashes, for which the \<^verbatim>\<open>repr\<close> is the key between apostrophes.
\<close>

type_synonym arguments = "(pystr \<times> pyval) list"

definition args_item :: "arguments \<Rightarrow> pystr \<Rightarrow> exn + pyval" where
  "args_item arguments k =
     (case map_of arguments k of
        None \<Rightarrow> Inl (Exn ''KeyError'' (quoted k))
      | Some v \<Rightarrow> Inr v)"

definition args_get :: "arguments \<Rightarrow> pystr \<Rightarrow> pyval \<Rightarrow> pyval" where
  "args_get arguments k dflt = (case map_of arguments k of None \<Rightarrow> dflt | Some v \<Rightarrow> v)"

text \<open>
  \<^verbatim>\<open>min(v, 5)\<close> evaluates \<^verbatim>\<open>5 < v\<close> and returns 5 when that holds, else
  \<^verbatim>\<open>v\<close>. The comparison is defined between numbers (a bool is the integer 0 or 1,
  every comparison with NaN is false) and raises \<^verbatim>\<open>TypeError\<close> otherwise.
\<close>

definition int_lt :: "int \<Rightarrow> pyval \<Rightarrow> exn + bool" where
  "int_lt n v =
     (case v of
        PBool b \<Rightarrow> Inr (n < (if b then 1 else 0))
      | PInt m \<Rightarrow> Inr (n < m)
      | PFloat f \<Rightarrow> Inr (case f of Finite r \<Rightarrow> of_int n < r | NaN \<Rightarrow> False
                                   | PosInf \<Rightarrow> True | NegInf \<Rightarrow> False)
      | _ \<Rightarrow> Inl (Exn ''TypeError''
                 (quoted (ascii ''<'') @ ascii '' not supported between instances of ''
                  @ quoted (ascii ''int'') @ ascii '' and '' @ quoted (type_name v))))"

definition py_min :: "pyval \<Rightarrow> int \<Rightarrow> exn + pyval" where
  "py_min v n = (case int_lt n v of Inl e \<Rightarrow> Inl e | Inr b \<Rightarrow> Inr (if b then PInt n else v))"

text \<open>\<^verbatim>\<open>s.startswith(p)\<close>: only a \<^verbatim>\<open>str\<close> has the method.\<close>

definition py_startswith :: "pyval \<Rightarrow> pystr \<Rightarrow> exn + bool" where
  "py_startswith v p =
     (case v of
        PStr s \<Rightarrow> Inr (prefix p s)
      | _ \<Rightarrow> Inl (Exn ''AttributeError''
                 (quoted (type_name v) @ ascii '' object has no attribute ''
                  @ quoted (ascii ''startswith''))))"

text \<open>
  Decimal digits of a natural number, and \<^verbatim>\<open>str\<close> of an integer. CPython (3.11
  and later, with the default setting) refuses to convert an integer of more than 4300
  digits to text and raises \<^verbatim>\<open>ValueError\<close>.
\<close>

fun digits :: "nat \<Rightarrow> pystr" where
  "digits n = (if n < 10 then [48 + n] else digits (n div 10) @ [48 + n mod 10])"

declare digits.simps [simp del]

definition str_digits_bound :: int where
  \<comment> \<open>The least integer with more than 4300 digits.\<close>
  "str_digits_bound = 10 ^ 4300"

definition str_digits_error :: exn where
  "str_digits_error =
     Exn ''ValueError''
       (ascii ''Exceeds the limit (4300 digits) for integer string conversion; ''
        @ ascii ''use sys.set_int_max_str_digits() to increase the limit'')"

definition decimal :: "int \<Rightarrow> pystr" where
  \<comment> \<open>The decimal numeral of an integer; 45 is the minus sign.\<close>
  "decimal i = (if i < 0 then 45 # digits (nat (- i)) else digits (nat i))"

definition str_int :: "int \<Rightarrow> exn + pystr" where
  "str_int i = (if str_digits_bound \<le> \<bar>i\<bar> then Inl str_digits_error else Inr (decimal i))"

definition exn_bind :: "exn + 'a \<Rightarrow> ('a \<Rightarrow> exn + 'b) \<Rightarrow> exn + 'b" where
  \<comment> \<open>Evaluate the first; when it raises, so does the whole.\<close>
  "exn_bind r f = (case r of Inl e \<Rightarrow> Inl e | Inr x \<Rightarrow> f x)"

section \<open>The outside world\<close>

text \<open>
  What the program observes of a response of \<^verbatim>\<open>httpx\<close>: the status code, the
  bytes of the body, and the outcome of \<^verbatim>\<open>resp.json()\<close>, which raises on a body
  that is not JSON.
\<close>

record http_response =
  status_code :: int
  content :: "nat list"
  json :: "exn + pyval"

text \<open>The two attributes read from the answer of the synthesis agent.\<close>

record agent_response =
  error_message :: pyval
  response :: pyval

text \<open>
  The program creates an \<^verbatim>\<open>httpx.AsyncClient\<close> at two places: in the license gate
  and in \<^verbatim>\<open>read_arxiv_pdf\<close>.
\<close>

datatype http_client = GateClient | PdfClient

text \<open>
  Everything the program does not compute itself is answered by the world: each field
  gives, for the request made, either the exception raised or the value returned.
  \<^item> \<open>client_new\<close> and \<open>client_close\<close> are entering and leaving
    \<^verbatim>\<open>async with httpx.AsyncClient() as client\<close>; both can fail.
  \<^item> \<open>import_module\<close> is an import statement: given the name of the module, the
    module search path and the modules already loaded, it succeeds or raises, and leaves
    the loaded modules as it says.
  \<^item> \<open>str_other\<close> is \<^verbatim>\<open>str\<close> on floats, lists and dicts, and \<open>json_dumps\<close> is
    \<^verbatim>\<open>json.dumps(items, indent=2)\<close>; both belong to the Python runtime, are not
    expanded here, and can raise.
  \<^item> A PDF is the list of its pages, each page being what \<^verbatim>\<open>extract_text()\<close>
    does on it.
\<close>

record world =
  client_new :: "http_client \<Rightarrow> exn + unit"
  client_close :: "http_client \<Rightarrow> exn + unit"
  http_post :: "pystr \<Rightarrow> (pystr \<times> pystr) list \<Rightarrow> exn + http_response"
  http_get :: "pyval \<Rightarrow> exn + http_response"
  subprocess_run :: "pyval list \<Rightarrow> exn + pystr"
  import_module :: "pystr \<Rightarrow> pystr list \<Rightarrow> pystr list \<Rightarrow> (exn + unit) \<times> pystr list"
  agent_new :: "exn + unit"
  agent_initialize :: "exn + unit"
  chat_request :: "pyval \<Rightarrow> exn + unit"
  process_request :: "pyval \<Rightarrow> exn + agent_response"
  agent_close :: "exn + unit"
  getenv :: "pystr \<Rightarrow> pystr option"
  zotero_new :: "pystr option \<Rightarrow> pystr option \<Rightarrow> exn + unit"
  zotero_top :: "pyval \<Rightarrow> exn + pyval"
  json_dumps :: "pyval \<Rightarrow> exn + pystr"
  pdf_reader :: "nat list \<Rightarrow> exn + (exn + pystr) list"
  str_other :: "pyval \<Rightarrow> exn + pystr"

text \<open>The calls a run makes, in order.\<close>

datatype event =
    HttpPost pystr "(pystr \<times> pystr) list"
  | HttpGet pyval
  | SubprocessRun "pyval list"
  | Import pystr
  | AgentNew
  | AgentInitialize
  | ChatRequest pyval
  | ProcessRequest pyval
  | AgentClose
  | ZoteroNew "pystr option" "pystr option"
  | ZoteroTop pyval
  | PdfReader "nat list"
  | ExtractText nat

text \<open>
  The state of the interpreter that the program reads and writes:
  \<^verbatim>\<open>sys.path\<close> and the names of the modules in \<^verbatim>\<open>sys.modules\<close>.
\<close>

record process =
  sys_path :: "pystr list"
  sys_modules :: "pystr list"

text \<open>
  A computation starts in a state of the process; it raises or returns, has made some
  calls up to that point, and leaves a state.
\<close>

record 'a outcome =
  result :: "exn + 'a"
  calls :: "event list"
  state_after :: process

type_synonym 'a io = "process \<Rightarrow> 'a outcome"

definition io_return :: "'a \<Rightarrow> 'a io" where
  "io_return x s = \<lparr>result = Inr x, calls = [], state_after = s\<rparr>"

definition io_lift :: "exn + 'a \<Rightarrow> 'a io" where
  \<comment> \<open>A step inside the process: no call is made.\<close>
  "io_lift r s = \<lparr>result = r, calls = [], state_after = s\<rparr>"

definition perform :: "event \<Rightarrow> exn + 'a \<Rightarrow> 'a io" where
  \<comment> \<open>A call, with the world's answer.\<close>
  "perform ev r s = \<lparr>result = r, calls = [ev], state_after = s\<rparr>"

definition io_bind :: "'a io \<Rightarrow> ('a \<Rightarrow> 'b io) \<Rightarrow> 'b io" where
  "io_bind m f s =
     (case result (m s) of
        Inl e \<Rightarrow> \<lparr>result = Inl e, calls = calls (m s), state_after = state_after (m s)\<rparr>
      | Inr x \<Rightarrow>
          \<lparr>result = result (f x (state_after (m s))),
           calls = calls (m s) @ calls (f x (state_after (m s))),
           state_after = state_after (f x (state_after (m s)))\<rparr>)"

definition io_catch :: "'a io \<Rightarrow> (exn \<Rightarrow> 'a io) \<Rightarrow> 'a io" where
  \<comment> \<open>\<^verbatim>\<open>try: m except Exception as e: h\<close>\<close>
  "io_catch m h s =
     (case result (m s) of
        Inl e \<Rightarrow>
          \<lparr>result = result (h e (state_after (m s))),
           calls = calls (m s) @ calls (h e (state_after (m s))),
           state_after = state_after (h e (state_after (m s)))\<rparr>
      | Inr x \<Rightarrow> m s)"

definition with_client :: "world \<Rightarrow> http_client \<Rightarrow> 'a io \<Rightarrow> 'a io" where
  \<comment> \<open>\<^verbatim>\<open>async with httpx.AsyncClient() as client: body\<close>. The client is closed
      however the body ends, and an exception of closing it replaces the body's outcome.\<close>
  "with_client w c body =
     io_bind (io_lift (client_new w c)) (\<lambda>_ s.
       case client_close w c of
         Inl e \<Rightarrow> \<lparr>result = Inl e, calls = calls (body s), state_after = state_after (body s)\<rparr>
       | Inr _ \<Rightarrow> body s)"

definition import_from :: "world \<Rightarrow> pystr \<Rightarrow> unit io" where
  "import_from w name s =
     \<lparr>result = fst (import_module w name (sys_path s) (sys_modules s)),
      calls = [Import name],
      state_after = s\<lparr>sys_modules := snd (import_module w name (sys_path s) (sys_modules s))\<rparr>\<rparr>"

definition py_str :: "world \<Rightarrow> pyval \<Rightarrow> exn + pystr" where
  \<comment> \<open>\<^verbatim>\<open>str(v)\<close>, as an f-string applies it.\<close>
  "py_str w v =
     (case v of
        PNone \<Rightarrow> Inr (ascii ''None'')
      | PBool b \<Rightarrow> Inr (if b then ascii ''True'' else ascii ''False'')
      | PInt n \<Rightarrow> str_int n
      | PStr s \<Rightarrow> Inr s
      | _ \<Rightarrow> str_other w v)"

section \<open>Configuration\<close>

text \<open>
  The module constants, read from the environment when the module is loaded.
  \<open>API_KEY\<close> is \<open>None\<close> when the variable is unset. \<open>core_path\<close> is the value of
  \<^verbatim>\<open>os.path.join(os.path.abspath(os.path.join(os.path.dirname(__file__), "..")), "Cite-Agent")\<close>,
  fixed by where the module is installed.
\<close>

record config =
  API_KEY :: "pystr option"
  GUMROAD_PRODUCT_PERMALINK :: pystr
  core_path :: pystr

section \<open>The license gate\<close>

definition verify_url :: pystr where
  "verify_url = ascii ''https://api.gumroad.com/v2/licenses/verify''"

definition verify_data :: "config \<Rightarrow> pystr \<Rightarrow> (pystr \<times> pystr) list" where
  "verify_data cfg key =
     [(ascii ''product_permalink'', GUMROAD_PRODUCT_PERMALINK cfg), (ascii ''license_key'', key)]"

text \<open>
  The body of the \<^verbatim>\<open>try\<close> block of \<^verbatim>\<open>validate_license_key\<close>. In
  \<^verbatim>\<open>a and not b\<close> the right operand is evaluated only when \<^verbatim>\<open>a\<close> is true,
  and a false \<^verbatim>\<open>a\<close> is itself the value.
\<close>

definition validate_try :: "config \<Rightarrow> world \<Rightarrow> pystr \<Rightarrow> pyval io" where
  "validate_try cfg w key =
     io_bind (perform (HttpPost verify_url (verify_data cfg key))
                (http_post w verify_url (verify_data cfg key))) (\<lambda>resp.
       if status_code resp = 200 then
         io_bind (io_lift (json resp)) (\<lambda>data.
         io_bind (io_lift (py_get data (ascii ''success'') (PBool False))) (\<lambda>success.
           if \<not> truthy success then io_return success
           else
             io_bind (io_lift (py_get data (ascii ''purchase'') (PDict []))) (\<lambda>purchase.
             io_bind (io_lift (py_get purchase (ascii ''refunded'') (PBool False))) (\<lambda>refunded.
               io_return (PBool (\<not> truthy refunded))))))
       else io_return (PBool False))"

text \<open>
  \<^verbatim>\<open>validate_license_key\<close>. The client is created before the \<^verbatim>\<open>try\<close> block
  is entered and closed after it is left, so an exception of either is not caught here.
\<close>

definition validate_license_key :: "config \<Rightarrow> world \<Rightarrow> pystr option \<Rightarrow> pyval io" where
  "validate_license_key cfg w key =
     (case key of
        None \<Rightarrow> io_return (PBool False)
      | Some k \<Rightarrow>
          if k = [] then io_return (PBool False)
          else with_client w GateClient
                 (io_catch (validate_try cfg w k) (\<lambda>e. io_return (PBool False))))"

section \<open>The dispatcher\<close>

text \<open>The result of a call is a list of \<^verbatim>\<open>TextContent(type="text", text=...)\<close>.\<close>

datatype text_content = TextContent (text_of: pystr)

text \<open>
  The non-ASCII characters of the messages, as code points: the warning sign with its
  variation selector, the pointing hand, the cross mark, the brain and the page.
\<close>

definition warning_sign :: pystr where "warning_sign = [9888, 65039]"
definition pointing_hand :: pystr where "pointing_hand = [128073]"
definition cross_mark :: pystr where "cross_mark = [10060]"
definition brain :: pystr where "brain = [129504]"
definition page_sign :: pystr where "page_sign = [128196]"

definition purchase_link :: "config \<Rightarrow> pystr" where
  "purchase_link cfg = ascii ''https://gumroad.com/l/'' @ GUMROAD_PRODUCT_PERMALINK cfg"

definition locked_notice :: "config \<Rightarrow> pystr \<Rightarrow> pystr" where
  "locked_notice cfg name =
     warning_sign @ ascii '' **PRO Feature Locked**'' @ [10, 10]
     @ quoted name @ ascii '' requires a Cite-Agent Pro license.'' @ [10, 10]
     @ pointing_hand @ ascii '' **Get your key here:** '' @ purchase_link cfg @ [10, 10]
     @ ascii ''Set the CITE_AGENT_API_KEY environment variable to unlock.''"

definition system_error :: "exn \<Rightarrow> pystr" where
  "system_error e = cross_mark @ ascii '' System Error: '' @ exn_str e"

definition integration_error :: "exn \<Rightarrow> pystr" where
  "integration_error e = cross_mark @ ascii '' Integration Error: '' @ exn_str e"

definition zotero_error :: "exn \<Rightarrow> pystr" where
  "zotero_error e =
     cross_mark @ ascii '' Zotero Error: '' @ exn_str e
     @ ascii ''. Ensure ZOTERO_USER_ID and ZOTERO_API_KEY are set.''"

definition cite_agent :: "pyval list \<Rightarrow> pyval list" where
  \<comment> \<open>The command line of the wrapped tool.\<close>
  "cite_agent xs = PStr (ascii ''cite-agent'') # xs"

subsection \<open>search_papers\<close>

definition search_prompt :: "world \<Rightarrow> pyval \<Rightarrow> pyval \<Rightarrow> exn + pystr" where
  \<comment> \<open>The f-string of the command: the query is converted first, then the count.\<close>
  "search_prompt w query max_results =
     exn_bind (py_str w query) (\<lambda>q.
     exn_bind (py_str w max_results) (\<lambda>m.
       Inr (ascii ''Find academic papers on: '' @ q @ ascii ''. Show '' @ m @ ascii '' results.'')))"

definition search_papers :: "world \<Rightarrow> pyval \<Rightarrow> arguments \<Rightarrow> text_content list io" where
  "search_papers w is_pro arguments =
     io_bind (io_lift (args_item arguments (ascii ''query''))) (\<lambda>query.
     io_bind (io_lift (if \<not> truthy is_pro
                       then py_min (args_get arguments (ascii ''max_results'') (PInt 10)) 5
                       else Inr (args_get arguments (ascii ''max_results'') (PInt 10)))) (\<lambda>max_results.
     io_bind (io_lift (search_prompt w query max_results)) (\<lambda>prompt.
     io_bind (perform (SubprocessRun (cite_agent [PStr prompt]))
                (subprocess_run w (cite_agent [PStr prompt]))) (\<lambda>stdout.
       io_return [TextContent stdout]))))"

subsection \<open>research_deep_dive\<close>

text \<open>
  The branch begins by putting \<open>core_path\<close> in front of the module search path unless it
  is already there, so that the import that follows finds the core. \<open>deep_dive_try\<close> is
  the inner \<^verbatim>\<open>try\<close> block, \<open>research_deep_dive\<close> the block with its handler.
\<close>

definition add_core_path :: "config \<Rightarrow> pystr list \<Rightarrow> pystr list" where
  "add_core_path cfg path =
     (if core_path cfg \<notin> set path then core_path cfg # path else path)"

definition insert_core_path :: "config \<Rightarrow> unit io" where
  "insert_core_path cfg s =
     \<lparr>result = Inr (), calls = [], state_after = s\<lparr>sys_path := add_core_path cfg (sys_path s)\<rparr>\<rparr>"

definition deep_dive_try :: "config \<Rightarrow> world \<Rightarrow> arguments \<Rightarrow> text_content list io" where
  \<comment> \<open>The request object holds the question alone, so the agent is asked with the question.\<close>
  "deep_dive_try cfg w arguments =
     io_bind (insert_core_path cfg) (\<lambda>_.
     io_bind (import_from w (ascii ''cite_agent.enhanced_ai_agent'')) (\<lambda>_.
     io_bind (perform AgentNew (agent_new w)) (\<lambda>_.
     io_bind (perform AgentInitialize (agent_initialize w)) (\<lambda>_.
     io_bind (io_lift (args_item arguments (ascii ''question''))) (\<lambda>question.
     io_bind (perform (ChatRequest question) (chat_request w question)) (\<lambda>_.
     io_bind (perform (ProcessRequest question) (process_request w question)) (\<lambda>resp.
     io_bind (perform AgentClose (agent_close w)) (\<lambda>_.
       if truthy (error_message resp)
       then io_bind (io_lift (py_str w (error_message resp))) (\<lambda>msg.
              io_return [TextContent (cross_mark @ ascii '' Agent Error: '' @ msg)])
       else io_bind (io_lift (py_str w (response resp))) (\<lambda>answer.
              io_return [TextContent (brain @ ascii '' **Deep Research Synthesis**''
                                      @ [10, 10] @ answer)])))))))))"

definition research_deep_dive :: "config \<Rightarrow> world \<Rightarrow> arguments \<Rightarrow> text_content list io" where
  "research_deep_dive cfg w arguments =
     io_catch (deep_dive_try cfg w arguments)
       (\<lambda>e. io_return [TextContent (integration_error e)])"

subsection \<open>get_zotero_papers\<close>

definition zotero_try :: "world \<Rightarrow> arguments \<Rightarrow> text_content list io" where
  "zotero_try w arguments =
     io_bind (import_from w (ascii ''pyzotero'')) (\<lambda>_.
     io_bind (perform (ZoteroNew (getenv w (ascii ''ZOTERO_USER_ID''))
                                 (getenv w (ascii ''ZOTERO_API_KEY'')))
                (zotero_new w (getenv w (ascii ''ZOTERO_USER_ID''))
                              (getenv w (ascii ''ZOTERO_API_KEY'')))) (\<lambda>_.
     io_bind (io_lift (args_item arguments (ascii ''query''))) (\<lambda>query.
     io_bind (perform (ZoteroTop query) (zotero_top w query)) (\<lambda>items.
     io_bind (io_lift (json_dumps w items)) (\<lambda>dumped.
       io_return [TextContent dumped])))))"

definition get_zotero_papers :: "world \<Rightarrow> arguments \<Rightarrow> text_content list io" where
  "get_zotero_papers w arguments =
     io_catch (zotero_try w arguments) (\<lambda>e. io_return [TextContent (zotero_error e)])"

subsection \<open>read_arxiv_pdf\<close>

definition arxiv_url :: "pystr \<Rightarrow> pystr" where
  "arxiv_url ident = ascii ''https://arxiv.org/pdf/'' @ ident @ ascii ''.pdf''"

text \<open>
  The loop \<^verbatim>\<open>for i in range(min(10, len(reader.pages)))\<close>, over the list of the
  indices it visits: every index is below the number of pages.
\<close>

fun extract_loop :: "(exn + pystr) list \<Rightarrow> nat list \<Rightarrow> pystr \<Rightarrow> pystr io" where
  "extract_loop pages [] text = io_return text"
| "extract_loop pages (i # rest) text =
     io_bind (perform (ExtractText i) (pages ! i)) (\<lambda>t. extract_loop pages rest (text @ t))"

definition pdf_text :: "pystr \<Rightarrow> pystr" where
  "pdf_text text =
     page_sign @ ascii '' **Full Text (First 10 pages)**'' @ [10, 10]
     @ take 15000 text @ ascii ''...''"

definition download_failed :: "pystr \<Rightarrow> pystr" where
  "download_failed status = cross_mark @ ascii '' Failed to download PDF: '' @ status"

text \<open>
  \<open>download_and_extract\<close> is the body of the \<^verbatim>\<open>async with\<close> block of the branch,
  \<open>read_arxiv_pdf\<close> the branch.
\<close>

definition download_and_extract :: "world \<Rightarrow> pyval \<Rightarrow> text_content list io" where
  "download_and_extract w url =
     io_bind (perform (HttpGet url) (http_get w url)) (\<lambda>resp.
       if status_code resp \<noteq> 200
       then io_bind (io_lift (str_int (status_code resp))) (\<lambda>status.
              io_return [TextContent (download_failed status)])
       else
         io_bind (perform (PdfReader (content resp)) (pdf_reader w (content resp))) (\<lambda>pages.
         io_bind (extract_loop pages [0 ..< min 10 (length pages)] []) (\<lambda>text.
           io_return [TextContent (pdf_text text)])))"

definition read_arxiv_pdf :: "world \<Rightarrow> arguments \<Rightarrow> text_content list io" where
  "read_arxiv_pdf w arguments =
     io_bind (import_from w (ascii ''io'')) (\<lambda>_.
     io_bind (import_from w (ascii ''PyPDF2'')) (\<lambda>_.
     io_bind (io_lift (args_item arguments (ascii ''url_or_id''))) (\<lambda>url.
     io_bind (io_lift (py_startswith url (ascii ''http''))) (\<lambda>starts_http.
     io_bind (io_lift (if \<not> starts_http
                       then exn_bind (py_str w url) (\<lambda>ident. Inr (PStr (arxiv_url ident)))
                       else Inr url)) (\<lambda>url.
       with_client w PdfClient (download_and_extract w url))))))"

subsection \<open>verify_citation and get_financial_data\<close>

definition verify_citation :: "world \<Rightarrow> arguments \<Rightarrow> text_content list io" where
  "verify_citation w arguments =
     io_bind (io_lift (args_item arguments (ascii ''citation''))) (\<lambda>citation.
     io_bind (io_lift (py_str w citation)) (\<lambda>cited.
     io_bind (perform (SubprocessRun (cite_agent [PStr (ascii ''Verify this citation: '' @ cited)]))
                (subprocess_run w (cite_agent [PStr (ascii ''Verify this citation: '' @ cited)])))
       (\<lambda>stdout. io_return [TextContent stdout])))"

definition get_financial_data :: "world \<Rightarrow> arguments \<Rightarrow> text_content list io" where
  "get_financial_data w arguments =
     io_bind (io_lift (args_item arguments (ascii ''query''))) (\<lambda>query.
     io_bind (perform (SubprocessRun (cite_agent [query]))
                (subprocess_run w (cite_agent [query]))) (\<lambda>stdout.
       io_return [TextContent stdout]))"

subsection \<open>call_tool\<close>

definition unknown_tool :: "pystr \<Rightarrow> exn" where
  "unknown_tool name = Exn ''ValueError'' (ascii ''Unknown tool: '' @ name)"

text \<open>
  The outer \<^verbatim>\<open>try\<close> block: the chain of comparisons of the name, in the order of
  the source.
\<close>

definition call_tool_try ::
  "config \<Rightarrow> world \<Rightarrow> pyval \<Rightarrow> pystr \<Rightarrow> arguments \<Rightarrow> text_content list io" where
  "call_tool_try cfg w is_pro name arguments =
     (if name = ascii ''search_papers'' then search_papers w is_pro arguments
      else if name = ascii ''research_deep_dive'' then research_deep_dive cfg w arguments
      else if name = ascii ''get_zotero_papers'' then get_zotero_papers w arguments
      else if name = ascii ''read_arxiv_pdf'' then read_arxiv_pdf w arguments
      else if name = ascii ''verify_citation'' then verify_citation w arguments
      else if name = ascii ''get_financial_data'' then get_financial_data w arguments
      else io_lift (Inl (unknown_tool name)))"

text \<open>
  \<^verbatim>\<open>call_tool\<close>. The gate is awaited before the \<^verbatim>\<open>try\<close> block is entered,
  so an exception of the gate leaves \<^verbatim>\<open>call_tool\<close>.
\<close>

definition call_tool :: "config \<Rightarrow> world \<Rightarrow> pystr \<Rightarrow> arguments \<Rightarrow> text_content list io" where
  "call_tool cfg w name arguments =
     io_bind (validate_license_key cfg w (API_KEY cfg)) (\<lambda>is_pro.
       if name \<noteq> ascii ''search_papers'' \<and> \<not> truthy is_pro
       then io_return [TextContent (locked_notice cfg name)]
       else io_catch (call_tool_try cfg w is_pro name arguments)
              (\<lambda>e. io_return [TextContent (system_error e)]))"

section \<open>The catalog and the notions the properties speak of\<close>

text \<open>
  \<^verbatim>\<open>list_tools\<close>: the six tools, each with the keys its input schema requires
  (the descriptions and property types play no part in the dispatch).
\<close>

record tool =
  tool_name :: pystr
  required :: "pystr list"

definition list_tools :: "tool list" where
  "list_tools =
     [\<lparr>tool_name = ascii ''search_papers'', required = [ascii ''query'']\<rparr>,
      \<lparr>tool_name = ascii ''research_deep_dive'', required = [ascii ''question'']\<rparr>,
      \<lparr>tool_name = ascii ''get_zotero_papers'', required = [ascii ''query'']\<rparr>,
      \<lparr>tool_name = ascii ''read_arxiv_pdf'', required = [ascii ''url_or_id'']\<rparr>,
      \<lparr>tool_name = ascii ''verify_citation'', required = [ascii ''citation'']\<rparr>,
      \<lparr>tool_name = ascii ''get_financial_data'', required = [ascii ''query'']\<rparr>]"

definition catalog :: "pystr list" where
  "catalog = map tool_name list_tools"

definition omits_required_key :: "pystr \<Rightarrow> arguments \<Rightarrow> bool" where
  \<comment> \<open>The tool is in the catalog and one of its required keys is missing.\<close>
  "omits_required_key name arguments =
     list_ex (\<lambda>t. tool_name t = name \<and> list_ex (\<lambda>k. map_of arguments k = None) (required t))
       list_tools"

definition importing_tools :: "pystr list" where
  \<comment> \<open>The tools whose branch holds an import statement.\<close>
  "importing_tools =
     [ascii ''research_deep_dive'', ascii ''get_zotero_papers'', ascii ''read_arxiv_pdf'']"

fun imports_succeed :: "world \<Rightarrow> pystr list \<Rightarrow> process \<Rightarrow> bool" where
  \<comment> \<open>Importing the named modules one after the other, from the given state, succeeds.\<close>
  "imports_succeed w [] s = True"
| "imports_succeed w (name # names) s =
     (case fst (import_module w name (sys_path s) (sys_modules s)) of
        Inl e \<Rightarrow> False
      | Inr u \<Rightarrow>
          imports_succeed w names
            (s\<lparr>sys_modules := snd (import_module w name (sys_path s) (sys_modules s))\<rparr>))"

text \<open>
  The request to the license verifier is the only POST the program makes; every other
  call goes to a collaborator.
\<close>

fun is_collaborator_call :: "event \<Rightarrow> bool" where
  "is_collaborator_call (HttpPost url kvs) = False"
| "is_collaborator_call ev = True"

definition collaborator_calls :: "event list \<Rightarrow> event list" where
  "collaborator_calls t = filter is_collaborator_call t"

text \<open>
  What an invocation started in state \<open>s\<close> learns from the gate: nothing when the gate
  raises, and else the truth value that the test \<^verbatim>\<open>not is_pro\<close> sees.
\<close>

definition entitlement :: "config \<Rightarrow> world \<Rightarrow> process \<Rightarrow> bool option" where
  "entitlement cfg w s =
     (case result (validate_license_key cfg w (API_KEY cfg) s) of
        Inl e \<Rightarrow> None
      | Inr is_pro \<Rightarrow> Some (truthy is_pro))"

definition gate_value :: "config \<Rightarrow> world \<Rightarrow> process \<Rightarrow> pyval" where
  \<comment> \<open>The value of \<^verbatim>\<open>is_pro\<close>, when the gate returns.\<close>
  "gate_value cfg w s =
     (case result (validate_license_key cfg w (API_KEY cfg) s) of
        Inl e \<Rightarrow> PNone
      | Inr is_pro \<Rightarrow> is_pro)"

definition passes_gate :: "config \<Rightarrow> world \<Rightarrow> process \<Rightarrow> pystr \<Rightarrow> bool" where
  \<comment> \<open>The gate returns, and the name is the free tool's or the value is true.\<close>
  "passes_gate cfg w s name =
     (case entitlement cfg w s of
        None \<Rightarrow> False
      | Some entitled \<Rightarrow> name = ascii ''search_papers'' \<or> entitled)"

text \<open>
  The three error notices of the dispatcher, and which one a tool's exception handler
  writes.
\<close>

definition error_notice :: "pystr \<Rightarrow> exn \<Rightarrow> pystr" where
  "error_notice name e =
     (if name = ascii ''research_deep_dive'' then integration_error e
      else if name = ascii ''get_zotero_papers'' then zotero_error e
      else system_error e)"

definition is_error_notice :: "pystr \<Rightarrow> bool" where
  "is_error_notice txt =
     (prefix (cross_mark @ ascii '' System Error: '') txt
      \<or> prefix (cross_mark @ ascii '' Integration Error: '') txt
      \<or> prefix (cross_mark @ ascii '' Zotero Error: '') txt)"

text \<open>
  The exception, if any, that ends the delegation of a call whose \<^verbatim>\<open>try\<close> block
  is entered in state \<open>s\<close>: the one raised in the block that encloses the tool's work.
\<close>

definition delegation_fault ::
  "config \<Rightarrow> world \<Rightarrow> process \<Rightarrow> pyval \<Rightarrow> pystr \<Rightarrow> arguments \<Rightarrow> exn option" where
  "delegation_fault cfg w s is_pro name arguments =
     (case (if name = ascii ''research_deep_dive'' then result (deep_dive_try cfg w arguments s)
            else if name = ascii ''get_zotero_papers'' then result (zotero_try w arguments s)
            else result (call_tool_try cfg w is_pro name arguments s)) of
        Inl e \<Rightarrow> Some e
      | Inr r \<Rightarrow> None)"

text \<open>
  The success condition in the words of the specification: an HTTP success status (the
  2xx class), a success flag that is true, and a refund flag of the purchase that is false
  or absent.
\<close>

definition spec_refund_clear :: "(pystr \<times> pyval) list \<Rightarrow> bool" where
  "spec_refund_clear kvs =
     (case map_of kvs (ascii ''purchase'') of
        Some (PDict p) \<Rightarrow>
          (case map_of p (ascii ''refunded'') of None \<Rightarrow> True | Some r \<Rightarrow> r = PBool False)
      | _ \<Rightarrow> True)"

definition spec_success :: "exn + http_response \<Rightarrow> bool" where
  "spec_success answer =
     (case answer of
        Inl e \<Rightarrow> False
      | Inr resp \<Rightarrow>
          200 \<le> status_code resp \<and> status_code resp < 300 \<and>
          (case json resp of
             Inr (PDict kvs) \<Rightarrow>
               map_of kvs (ascii ''success'') = Some (PBool True) \<and> spec_refund_clear kvs
           | _ \<Rightarrow> False))"

text \<open>
  The success condition the program applies: status 200 exactly, a JSON object whose
  \<^verbatim>\<open>success\<close> value (default \<^verbatim>\<open>False\<close>) is true in the sense of truth value
  testing, and whose \<^verbatim>\<open>purchase\<close> value (default \<^verbatim>\<open>{}\<close>) is an object with
  a \<^verbatim>\<open>refunded\<close> value (default \<^verbatim>\<open>False\<close>) that is false in that sense.
\<close>

definition body_entitles :: "pyval \<Rightarrow> bool" where
  "body_entitles data =
     (case data of
        PDict kvs \<Rightarrow>
          truthy (args_get kvs (ascii ''success'') (PBool False)) \<and>
          (case args_get kvs (ascii ''purchase'') (PDict []) of
             PDict p \<Rightarrow> \<not> truthy (args_get p (ascii ''refunded'') (PBool False))
           | _ \<Rightarrow> False)
      | _ \<Rightarrow> False)"

definition answer_entitles :: "exn + http_response \<Rightarrow> bool" where
  "answer_entitles answer =
     (case answer of
        Inl e \<Rightarrow> False
      | Inr resp \<Rightarrow>
          status_code resp = 200 \<and>
          (case json resp of Inl e \<Rightarrow> False | Inr data \<Rightarrow> body_entitles data))"

text \<open>
  An identifier that is already a URL, in the words of the tool's description
  (\<^verbatim>\<open>https://arxiv.org/pdf/2308.07901.pdf\<close>): it begins with the scheme of a web
  address.
\<close>

definition spec_is_url :: "pystr \<Rightarrow> bool" where
  "spec_is_url ident = (prefix (ascii ''http://'') ident \<or> prefix (ascii ''https://'') ident)"

section \<open>Sample configurations and worlds\<close>

definition sample_config :: "pystr option \<Rightarrow> config" where
  "sample_config key =
     \<lparr>API_KEY = key, GUMROAD_PRODUCT_PERMALINK = ascii ''cite-agent-pro'',
      core_path = ascii ''/srv/Cite-Agent''\<rparr>"

definition fresh :: process where
  "fresh = \<lparr>sys_path = [], sys_modules = []\<rparr>"

definition offline_error :: exn where
  "offline_error = Exn ''ConnectError'' (ascii ''All connection attempts failed'')"

definition timeout_error :: exn where
  "timeout_error = Exn ''TimeoutExpired'' (ascii ''Command timed out after 60 seconds'')"

definition proxy_error :: exn where
  "proxy_error = Exn ''ValueError'' (ascii ''Unknown scheme for proxy URL'')"

text \<open>
  A world in which clients can be created and closed and every call to the outside and
  every import fails.
\<close>

definition offline :: world where
  "offline =
     \<lparr>client_new = (\<lambda>c. Inr ()),
      client_close = (\<lambda>c. Inr ()),
      http_post = (\<lambda>url kvs. Inl offline_error),
      http_get = (\<lambda>url. Inl offline_error),
      subprocess_run = (\<lambda>cmd. Inl timeout_error),
      import_module = (\<lambda>name path loaded. (Inl offline_error, loaded)),
      agent_new = Inl offline_error,
      agent_initialize = Inl offline_error,
      chat_request = (\<lambda>q. Inl offline_error),
      process_request = (\<lambda>q. Inl offline_error),
      agent_close = Inl offline_error,
      getenv = (\<lambda>k. None),
      zotero_new = (\<lambda>u k. Inl offline_error),
      zotero_top = (\<lambda>q. Inl offline_error),
      json_dumps = (\<lambda>v. Inl offline_error),
      pdf_reader = (\<lambda>bytes. Inl offline_error),
      str_other = (\<lambda>v. Inr [])\<rparr>"

definition verified_body :: pyval where
  "verified_body =
     PDict [(ascii ''success'', PBool True),
            (ascii ''purchase'', PDict [(ascii ''refunded'', PBool False)])]"

definition verifier_answers :: "int \<Rightarrow> pyval \<Rightarrow> world" where
  \<comment> \<open>The verifier answers with the given status and JSON body; everything else fails.\<close>
  "verifier_answers status body =
     offline\<lparr>http_post := (\<lambda>url kvs. Inr \<lparr>status_code = status, content = [], json = Inr body\<rparr>)\<rparr>"

definition licensed :: world where
  "licensed = verifier_answers 200 verified_body"

definition no_client :: world where
  \<comment> \<open>The license is valid, but no HTTP client can be created (a proxy setting is wrong).\<close>
  "no_client = licensed\<lparr>client_new := (\<lambda>c. Inl proxy_error)\<rparr>"

text \<open>
  A world for \<^verbatim>\<open>read_arxiv_pdf\<close>: the license is valid, imports succeed and are
  remembered, the PDF of arXiv paper 2308.07901 downloads, and the reader finds twelve
  pages, of which the eleventh cannot be read.
\<close>

definition sample_pages :: "(exn + pystr) list" where
  "sample_pages =
     [Inr (ascii ''A''), Inr (ascii ''B''), Inr (ascii ''C''), Inr (ascii ''D''),
      Inr (ascii ''E''), Inr (ascii ''F''), Inr (ascii ''G''), Inr (ascii ''H''),
      Inr (ascii ''I''), Inr (ascii ''J''), Inl offline_error, Inr (ascii ''L'')]"

definition arxiv_world :: world where
  "arxiv_world =
     licensed\<lparr>import_module := (\<lambda>name path loaded. (Inr (), loaded @ [name])),
               http_get := (\<lambda>url. if url = PStr (ascii ''https://arxiv.org/pdf/2308.07901.pdf'')
                                   then Inr \<lparr>status_code = 200, content = [37, 80, 68, 70],
                                             json = Inl offline_error\<rparr>
                                   else Inl offline_error),
               pdf_reader := (\<lambda>bytes. Inr sample_pages)\<rparr>"

text \<open>The same world, for a document of one page that holds 20000 times the letter A.\<close>

definition long_world :: world where
  "long_world = arxiv_world\<lparr>pdf_reader := (\<lambda>bytes. Inr [Inr (replicate 20000 65)])\<rparr>"

text \<open>
  A world in which the license is valid and the packages are installed in the core
  directory only: a module can be imported when it is loaded already or when the core
  directory is on the search path.
\<close>

definition module_not_found :: "pystr \<Rightarrow> exn" where
  "module_not_found name = Exn ''ModuleNotFoundError'' (ascii ''No module named '' @ quoted name)"

definition core_world :: world where
  "core_world =
     licensed\<lparr>import_module :=
       (\<lambda>name path loaded.
          if name \<in> set loaded then (Inr (), loaded)
          else if ascii ''/srv/Cite-Agent'' \<in> set path then (Inr (), loaded @ [name])
          else (Inl (module_not_found name), loaded))\<rparr>"

section \<open>Running a computation\<close>

lemma io_bind_Inl:
  "result (m s) = Inl e \<Longrightarrow>
     io_bind m f s = \<lparr>result = Inl e, calls = calls (m s), state_after = state_after (m s)\<rparr>"
  by (simp add: io_bind_def)

lemma io_bind_Inr:
  "result (m s) = Inr x \<Longrightarrow>
     io_bind m f s =
       \<lparr>result = result (f x (state_after (m s))),
        calls = calls (m s) @ calls (f x (state_after (m s))),
        state_after = state_after (f x (state_after (m s)))\<rparr>"
  by (simp add: io_bind_def)

lemma io_bind_return: "io_bind (io_return x) f s = f x s"
  by (simp add: io_bind_def io_return_def)

lemma io_bind_lift:
  "io_bind (io_lift r) f s =
     (case r of Inl e \<Rightarrow> \<lparr>result = Inl e, calls = [], state_after = s\<rparr> | Inr x \<Rightarrow> f x s)"
  by (simp add: io_bind_def io_lift_def split: sum.splits)

lemma io_bind_perform:
  "io_bind (perform ev r) f s =
     (case r of
        Inl e \<Rightarrow> \<lparr>result = Inl e, calls = [ev], state_after = s\<rparr>
      | Inr x \<Rightarrow> \<lparr>result = result (f x s), calls = ev # calls (f x s),
                  state_after = state_after (f x s)\<rparr>)"
  by (simp add: io_bind_def perform_def split: sum.splits)

lemma io_catch_Inl:
  "result (m s) = Inl e \<Longrightarrow>
     io_catch m h s =
       \<lparr>result = result (h e (state_after (m s))),
        calls = calls (m s) @ calls (h e (state_after (m s))),
        state_after = state_after (h e (state_after (m s)))\<rparr>"
  by (simp add: io_catch_def)

lemma io_catch_Inr: "result (m s) = Inr x \<Longrightarrow> io_catch m h s = m s"
  by (simp add: io_catch_def)

lemma io_catch_return:
  "io_catch m (\<lambda>e. io_return (h e)) s =
     \<lparr>result = Inr (case result (m s) of Inl e \<Rightarrow> h e | Inr x \<Rightarrow> x),
      calls = calls (m s), state_after = state_after (m s)\<rparr>"
  by (cases "result (m s)") (simp_all add: io_catch_def io_return_def)

lemma with_client_run:
  "with_client w c body s =
     (case client_new w c of
        Inl e \<Rightarrow> \<lparr>result = Inl e, calls = [], state_after = s\<rparr>
      | Inr u \<Rightarrow>
          (case client_close w c of
             Inl e \<Rightarrow> \<lparr>result = Inl e, calls = calls (body s),
                         state_after = state_after (body s)\<rparr>
           | Inr u \<Rightarrow> body s))"
  by (simp add: with_client_def io_bind_lift split: sum.splits)

lemmas sample_defs =
  sample_config_def licensed_def verifier_answers_def offline_def verified_body_def

section \<open>Properties of the license gate\<close>

lemma validate_try_calls:
  "calls (validate_try cfg w k s) = [HttpPost verify_url (verify_data cfg k)]"
  by (simp add: validate_try_def io_bind_perform io_bind_lift io_return_def
           split: sum.splits)

lemma validate_try_state: "state_after (validate_try cfg w k s) = s"
  by (simp add: validate_try_def io_bind_perform io_bind_lift io_return_def
           split: sum.splits)

lemma validate_try_value:
  "truthy (case result (validate_try cfg w k s) of Inl e \<Rightarrow> PBool False | Inr v \<Rightarrow> v)
     = answer_entitles (http_post w verify_url (verify_data cfg k))"
  by (auto simp: validate_try_def io_bind_perform io_bind_lift io_return_def answer_entitles_def
        body_entitles_def py_get_def args_get_def
           split: sum.splits pyval.splits)

lemma validate_try_result_state:
  "result (validate_try cfg w k s) = result (validate_try cfg w k s')"
  by (simp add: validate_try_def io_bind_perform io_bind_lift io_return_def
           split: sum.splits)

lemma validate_license_key_Some:
  "k \<noteq> [] \<Longrightarrow>
     validate_license_key cfg w (Some k) s =
       (case client_new w GateClient of
          Inl e \<Rightarrow> \<lparr>result = Inl e, calls = [], state_after = s\<rparr>
        | Inr u \<Rightarrow>
            (case client_close w GateClient of
               Inl e \<Rightarrow> \<lparr>result = Inl e, calls = [HttpPost verify_url (verify_data cfg k)],
                           state_after = s\<rparr>
             | Inr u \<Rightarrow>
                 \<lparr>result = Inr (case result (validate_try cfg w k s) of
                                  Inl e \<Rightarrow> PBool False | Inr v \<Rightarrow> v),
                  calls = [HttpPost verify_url (verify_data cfg k)], state_after = s\<rparr>))"
  by (simp add: validate_license_key_def with_client_run io_catch_return validate_try_calls
        validate_try_state split: sum.splits)

lemma validate_license_key_empty:
  "key = None \<or> key = Some [] \<Longrightarrow>
     validate_license_key cfg w key s = \<lparr>result = Inr (PBool False), calls = [], state_after = s\<rparr>"
  by (auto simp: validate_license_key_def io_return_def)

lemma gate_state: "state_after (validate_license_key cfg w key s) = s"
proof (cases "key = None \<or> key = Some []")
  case True
  then show ?thesis by (simp add: validate_license_key_empty)
next
  case False
  then obtain k where "key = Some k" "k \<noteq> []" by auto
  then show ?thesis
    by (simp add: validate_license_key_Some split: sum.splits)
qed

lemma gate_calls:
  "collaborator_calls (calls (validate_license_key cfg w key s)) = []"
proof (cases "key = None \<or> key = Some []")
  case True
  then show ?thesis by (simp add: validate_license_key_empty collaborator_calls_def)
next
  case False
  then obtain k where "key = Some k" "k \<noteq> []" by auto
  then show ?thesis
    by (simp add: validate_license_key_Some collaborator_calls_def split: sum.splits)
qed

lemma gate_ignores_state:
  "result (validate_license_key cfg w key s) = result (validate_license_key cfg w key s')"
  "calls (validate_license_key cfg w key s) = calls (validate_license_key cfg w key s')"
proof -
  show "result (validate_license_key cfg w key s) = result (validate_license_key cfg w key s')"
  proof (cases "key = None \<or> key = Some []")
    case True
    then show ?thesis by (simp add: validate_license_key_empty)
  next
    case False
    then obtain k where "key = Some k" "k \<noteq> []" by auto
    then show ?thesis
      using validate_try_result_state [of cfg w k s s']
      by (simp add: validate_license_key_Some split: sum.splits)
  qed
  show "calls (validate_license_key cfg w key s) = calls (validate_license_key cfg w key s')"
  proof (cases "key = None \<or> key = Some []")
    case True
    then show ?thesis by (simp add: validate_license_key_empty)
  next
    case False
    then obtain k where "key = Some k" "k \<noteq> []" by auto
    then show ?thesis
      by (simp add: validate_license_key_Some split: sum.splits)
  qed
qed

text \<open>
  Claim C3. For an absent credential (\<open>None\<close>) and for the empty credential, the gate
  returns \<^verbatim>\<open>False\<close> at once and makes no call: the list of calls is empty, and no
  client is created.
\<close>

theorem empty_credential_no_network_call:
  "validate_license_key cfg w None s
     = \<lparr>result = Inr (PBool False), calls = [], state_after = s\<rparr>
   \<and> validate_license_key cfg w (Some []) s
     = \<lparr>result = Inr (PBool False), calls = [], state_after = s\<rparr>"
  by (simp add: validate_license_key_def io_return_def)

text \<open>
  Claim C2, as amended. For every non-empty credential, when the HTTP client is created
  and closed without an exception, the gate makes exactly one request to the verifier and
  returns a value. That value is true under truth value testing exactly when the request
  was answered (no exception) with status 200 exactly, by a body that decodes to a JSON
  object whose \<^verbatim>\<open>success\<close> value is true under truth value testing and whose
  \<^verbatim>\<open>purchase\<close> value, when present, is an object whose \<^verbatim>\<open>refunded\<close> value is
  absent or false under truth value testing. In every other case (an exception of the
  request, another status, a body that does not decode, a value of the wrong shape) the
  value is false under truth value testing, and no exception of the request or of reading
  the answer leaves the gate.
\<close>

theorem gate_verdict:
  assumes "k \<noteq> []"
    and "client_new w GateClient = Inr ()"
    and "client_close w GateClient = Inr ()"
  shows "\<exists>v. result (validate_license_key cfg w (Some k) s) = Inr v
             \<and> truthy v = answer_entitles (http_post w verify_url (verify_data cfg k))
             \<and> calls (validate_license_key cfg w (Some k) s)
                 = [HttpPost verify_url (verify_data cfg k)]"
  using assms
  by (simp add: validate_license_key_Some validate_try_value)

lemma key_not_empty: "ascii ''KEY-1234'' \<noteq> []"
  by (simp add: ascii_def)

lemmas gate_eval =
  validate_license_key_def with_client_run io_catch_return validate_try_def io_bind_perform
  io_bind_lift io_return_def py_get_def

theorem gate_verdict_witness:
  "ascii ''KEY-1234'' \<noteq> []
   \<and> client_new licensed GateClient = Inr ()
   \<and> client_close licensed GateClient = Inr ()
   \<and> result (validate_license_key (sample_config (Some (ascii ''KEY-1234''))) licensed
               (Some (ascii ''KEY-1234'')) fresh) = Inr (PBool True)
   \<and> calls (validate_license_key (sample_config (Some (ascii ''KEY-1234''))) licensed
              (Some (ascii ''KEY-1234'')) fresh)
       = [HttpPost verify_url
            [(ascii ''product_permalink'', ascii ''cite-agent-pro''),
             (ascii ''license_key'', ascii ''KEY-1234'')]]"
proof -
  have n: "client_new licensed GateClient = Inr ()"
    and c: "client_close licensed GateClient = Inr ()"
    by (simp_all add: sample_defs)
  have r: "result (validate_license_key (sample_config (Some (ascii ''KEY-1234''))) licensed
               (Some (ascii ''KEY-1234'')) fresh) = Inr (PBool True)"
    by (simp add: gate_eval sample_defs ascii_def)
  have d: "verify_data (sample_config (Some (ascii ''KEY-1234''))) (ascii ''KEY-1234'')
             = [(ascii ''product_permalink'', ascii ''cite-agent-pro''),
                (ascii ''license_key'', ascii ''KEY-1234'')]"
    by (simp add: verify_data_def sample_config_def)
  from gate_verdict [OF key_not_empty n c, of "sample_config (Some (ascii ''KEY-1234''))" fresh]
  have "calls (validate_license_key (sample_config (Some (ascii ''KEY-1234''))) licensed
              (Some (ascii ''KEY-1234'')) fresh)
       = [HttpPost verify_url
            (verify_data (sample_config (Some (ascii ''KEY-1234''))) (ascii ''KEY-1234''))]"
    by blast
  with key_not_empty n c r d show ?thesis
    by simp
qed

text \<open>
  Claim C2 as stated fails, at four answers of the world to the credential
  \<^verbatim>\<open>KEY-1234\<close>.
  \<^item> Status 201, an HTTP success status, with the body
    \<^verbatim>\<open>{"success": true, "purchase": {"refunded": false}}\<close>: the success condition of
    the specification holds and the gate returns \<^verbatim>\<open>False\<close>, because the program
    compares the status with 200.
  \<^item> Status 200 with the body \<^verbatim>\<open>{"success": "yes", "purchase": {"refunded": ""}}\<close>:
    neither flag is a boolean, the condition of the specification fails, and the gate
    returns \<^verbatim>\<open>True\<close>, because the program tests truth values.
  \<^item> Status 200 with the body \<^verbatim>\<open>{"success": null}\<close>: the gate returns the flag
    itself, \<^verbatim>\<open>None\<close>, not \<^verbatim>\<open>False\<close>.
  \<^item> The client cannot be created: the exception leaves the gate.
\<close>

theorem gate_counterexample:
  "spec_success (http_post (verifier_answers 201 verified_body) verify_url
      (verify_data (sample_config (Some (ascii ''KEY-1234''))) (ascii ''KEY-1234'')))
   \<and> result (validate_license_key (sample_config (Some (ascii ''KEY-1234'')))
        (verifier_answers 201 verified_body) (Some (ascii ''KEY-1234'')) fresh)
      = Inr (PBool False)
   \<and> \<not> spec_success
        (http_post (verifier_answers 200
                      (PDict [(ascii ''success'', PStr (ascii ''yes'')),
                              (ascii ''purchase'', PDict [(ascii ''refunded'', PStr [])])]))
           verify_url
           (verify_data (sample_config (Some (ascii ''KEY-1234''))) (ascii ''KEY-1234'')))
   \<and> result (validate_license_key (sample_config (Some (ascii ''KEY-1234'')))
        (verifier_answers 200
           (PDict [(ascii ''success'', PStr (ascii ''yes'')),
                   (ascii ''purchase'', PDict [(ascii ''refunded'', PStr [])])]))
        (Some (ascii ''KEY-1234'')) fresh)
      = Inr (PBool True)
   \<and> result (validate_license_key (sample_config (Some (ascii ''KEY-1234'')))
        (verifier_answers 200 (PDict [(ascii ''success'', PNone)]))
        (Some (ascii ''KEY-1234'')) fresh)
      = Inr PNone
   \<and> result (validate_license_key (sample_config (Some (ascii ''KEY-1234''))) no_client
        (Some (ascii ''KEY-1234'')) fresh)
      = Inl proxy_error"
  by (simp add: spec_success_def spec_refund_clear_def sample_defs no_client_def gate_eval
        ascii_def)

section \<open>Properties of the dispatcher\<close>

subsection \<open>The gate in the dispatcher\<close>

lemma tool_names_distinct:
  "ascii ''research_deep_dive'' \<noteq> ascii ''search_papers''"
  "ascii ''get_zotero_papers'' \<noteq> ascii ''search_papers''"
  "ascii ''get_zotero_papers'' \<noteq> ascii ''research_deep_dive''"
  "ascii ''read_arxiv_pdf'' \<noteq> ascii ''search_papers''"
  "ascii ''read_arxiv_pdf'' \<noteq> ascii ''research_deep_dive''"
  "ascii ''read_arxiv_pdf'' \<noteq> ascii ''get_zotero_papers''"
  "ascii ''verify_citation'' \<noteq> ascii ''search_papers''"
  "ascii ''verify_citation'' \<noteq> ascii ''research_deep_dive''"
  "ascii ''verify_citation'' \<noteq> ascii ''get_zotero_papers''"
  "ascii ''verify_citation'' \<noteq> ascii ''read_arxiv_pdf''"
  "ascii ''get_financial_data'' \<noteq> ascii ''search_papers''"
  "ascii ''get_financial_data'' \<noteq> ascii ''research_deep_dive''"
  "ascii ''get_financial_data'' \<noteq> ascii ''get_zotero_papers''"
  "ascii ''get_financial_data'' \<noteq> ascii ''read_arxiv_pdf''"
  "ascii ''get_financial_data'' \<noteq> ascii ''verify_citation''"
  by (simp_all add: ascii_def)

lemma entitlement_Some:
  "entitlement cfg w s = Some b \<longleftrightarrow>
     (\<exists>v. result (validate_license_key cfg w (API_KEY cfg) s) = Inr v \<and> b = truthy v)"
  by (auto simp: entitlement_def split: sum.splits)

lemma entitlement_None:
  "entitlement cfg w s = None \<longleftrightarrow>
     (\<exists>e. result (validate_license_key cfg w (API_KEY cfg) s) = Inl e)"
  by (auto simp: entitlement_def split: sum.splits)

lemma call_tool_gate_raises:
  assumes "result (validate_license_key cfg w (API_KEY cfg) s) = Inl e"
  shows "call_tool cfg w name args s =
           \<lparr>result = Inl e, calls = calls (validate_license_key cfg w (API_KEY cfg) s),
            state_after = s\<rparr>"
  using assms by (simp add: call_tool_def io_bind_Inl gate_state)

lemma call_tool_locked:
  assumes "name \<noteq> ascii ''search_papers''" and "entitlement cfg w s = Some False"
  shows "call_tool cfg w name args s =
           \<lparr>result = Inr [TextContent (locked_notice cfg name)],
            calls = calls (validate_license_key cfg w (API_KEY cfg) s),
            state_after = s\<rparr>"
proof -
  from assms(2) obtain v
    where v: "result (validate_license_key cfg w (API_KEY cfg) s) = Inr v" "\<not> truthy v"
    by (auto simp: entitlement_Some)
  with assms(1) show ?thesis
    by (simp add: call_tool_def io_bind_Inr [where m = "validate_license_key cfg w (API_KEY cfg)" and s = s, OF v(1)] gate_state io_return_def)
qed

lemma call_tool_returns:
  assumes "result (validate_license_key cfg w (API_KEY cfg) s) = Inr is_pro"
    and "name = ascii ''search_papers'' \<or> truthy is_pro"
  shows "call_tool cfg w name args s =
           \<lparr>result = Inr (case result (call_tool_try cfg w is_pro name args s) of
                            Inl e \<Rightarrow> [TextContent (system_error e)] | Inr r \<Rightarrow> r),
            calls = calls (validate_license_key cfg w (API_KEY cfg) s)
                    @ calls (call_tool_try cfg w is_pro name args s),
            state_after = state_after (call_tool_try cfg w is_pro name args s)\<rparr>"
  using assms(2)
  by (auto simp: call_tool_def io_bind_Inr [where m = "validate_license_key cfg w (API_KEY cfg)" and s = s, OF assms(1)] gate_state io_catch_return)

lemma passes_gate_value:
  assumes "passes_gate cfg w s name"
  shows "result (validate_license_key cfg w (API_KEY cfg) s) = Inr (gate_value cfg w s)"
    and "name = ascii ''search_papers'' \<or> truthy (gate_value cfg w s)"
  using assms
  by (auto simp: passes_gate_def entitlement_def gate_value_def split: sum.splits)

lemma call_tool_passes:
  assumes "passes_gate cfg w s name"
  shows "call_tool cfg w name args s =
           \<lparr>result = Inr (case result (call_tool_try cfg w (gate_value cfg w s) name args s) of
                            Inl e \<Rightarrow> [TextContent (system_error e)] | Inr r \<Rightarrow> r),
            calls = calls (validate_license_key cfg w (API_KEY cfg) s)
                    @ calls (call_tool_try cfg w (gate_value cfg w s) name args s),
            state_after = state_after (call_tool_try cfg w (gate_value cfg w s) name args s)\<rparr>"
  by (rule call_tool_returns [OF passes_gate_value [OF assms]])

lemma collaborator_calls_gate:
  "collaborator_calls (calls (validate_license_key cfg w key s) @ t) = collaborator_calls t"
  using gate_calls [of cfg w key s]
  by (simp add: collaborator_calls_def)


lemma sublist_name_locked: "sublist name (locked_notice cfg name)"
proof -
  have "locked_notice cfg name =
          (warning_sign @ ascii '' **PRO Feature Locked**'' @ [10, 10] @ [39])
          @ name
          @ ([39] @ ascii '' requires a Cite-Agent Pro license.'' @ [10, 10]
             @ pointing_hand @ ascii '' **Get your key here:** '' @ purchase_link cfg
             @ [10, 10] @ ascii ''Set the CITE_AGENT_API_KEY environment variable to unlock.'')"
    by (simp add: locked_notice_def quoted_def)
  then show ?thesis
    unfolding sublist_def by blast
qed



lemma not_entitled_without_key: "entitlement (sample_config None) w s = Some False"
  by (simp add: entitlement_def sample_config_def validate_license_key_def io_return_def)

lemma entitled_licensed:
  "entitlement (sample_config (Some (ascii ''KEY-1234''))) licensed s = Some True"
  by (simp add: entitlement_def sample_defs gate_eval ascii_def)


subsection \<open>Names outside the catalog\<close>

lemma catalog_names:
  "catalog = [ascii ''search_papers'', ascii ''research_deep_dive'', ascii ''get_zotero_papers'',
              ascii ''read_arxiv_pdf'', ascii ''verify_citation'', ascii ''get_financial_data'']"
  by (simp add: catalog_def list_tools_def)

lemma call_tool_try_unknown:
  assumes "name \<notin> set catalog"
  shows "call_tool_try cfg w is_pro name args s =
           \<lparr>result = Inl (unknown_tool name), calls = [], state_after = s\<rparr>"
  using assms by (simp add: catalog_names call_tool_try_def io_lift_def)

lemma sublist_name_unknown: "sublist name (system_error (unknown_tool name))"
proof -
  have "system_error (unknown_tool name)
          = (cross_mark @ ascii '' System Error: '' @ ascii ''Unknown tool: '') @ name @ []"
    by (simp add: system_error_def unknown_tool_def)
  then show ?thesis
    unfolding sublist_def by blast
qed

lemma unknown_tool_calls:
  assumes "name \<notin> set catalog"
  shows "collaborator_calls (calls (call_tool cfg w name args s)) = []"
proof (cases "result (validate_license_key cfg w (API_KEY cfg) s)")
  case (Inl e)
  then show ?thesis
    by (simp add: call_tool_gate_raises gate_calls)
next
  case (Inr v)
  show ?thesis
  proof (cases "truthy v")
    case True
    with Inr show ?thesis
      by (simp add: call_tool_returns call_tool_try_unknown [OF assms] gate_calls)
  next
    case False
    from assms have "name \<noteq> ascii ''search_papers''"
      by (auto simp: catalog_names)
    moreover from Inr False have "entitlement cfg w s = Some False"
      by (simp add: entitlement_def)
    ultimately show ?thesis
      by (simp add: call_tool_locked gate_calls)
  qed
qed

lemma unknown_tool_text:
  assumes "name \<notin> set catalog" and "entitlement cfg w s = Some entitled"
  shows "result (call_tool cfg w name args s)
         = Inr [TextContent (if entitled then system_error (unknown_tool name)
                             else locked_notice cfg name)]"
proof -
  from assms(2) obtain v
    where v: "result (validate_license_key cfg w (API_KEY cfg) s) = Inr v" "entitled = truthy v"
    by (auto simp: entitlement_Some)
  show ?thesis
  proof (cases entitled)
    case True
    with v show ?thesis
      by (simp add: call_tool_returns call_tool_try_unknown [OF assms(1)])
  next
    case False
    from assms(1) have "name \<noteq> ascii ''search_papers''"
      by (auto simp: catalog_names)
    with assms(2) False show ?thesis
      by (simp add: call_tool_locked)
  qed
qed

text \<open>
  Claim C5 (as the code has it). A name outside the catalog is answered with the
  unknown-tool error notice only when the gate returns a true value; when it returns a
  false value the answer is the locked notice, as for a paid tool. Both texts contain the
  name, and the call makes no call to a collaborator.
\<close>

theorem unknown_tool_result:
  assumes "name \<notin> set catalog"
  shows "(\<forall>entitled. entitlement cfg w s = Some entitled \<longrightarrow>
            result (call_tool cfg w name args s)
            = Inr [TextContent (if entitled then system_error (unknown_tool name)
                                else locked_notice cfg name)])
         \<and> sublist name (system_error (unknown_tool name))
         \<and> sublist name (locked_notice cfg name)
         \<and> collaborator_calls (calls (call_tool cfg w name args s)) = []"
  using assms
  by (simp add: unknown_tool_text unknown_tool_calls sublist_name_unknown sublist_name_locked)

lemma summarize_unknown: "ascii ''summarize'' \<notin> set catalog"
  by (simp add: catalog_names ascii_def)

theorem unknown_tool_result_witness:
  "ascii ''summarize'' \<notin> set catalog
   \<and> entitlement (sample_config (Some (ascii ''KEY-1234''))) licensed fresh = Some True
   \<and> result (call_tool (sample_config (Some (ascii ''KEY-1234''))) licensed
               (ascii ''summarize'') [] fresh)
     = Inr [TextContent (cross_mark @ ascii '' System Error: Unknown tool: summarize'')]"
proof -
  have "system_error (unknown_tool (ascii ''summarize''))
        = cross_mark @ ascii '' System Error: Unknown tool: summarize''"
    by (simp add: system_error_def unknown_tool_def ascii_def)
  with unknown_tool_result [OF summarize_unknown,
      of "sample_config (Some (ascii ''KEY-1234''))" licensed fresh "[]"]
    summarize_unknown entitled_licensed [of fresh]
  show ?thesis
    by auto
qed

text \<open>
  Claim C5, counterexample to the claim as worded: without a credential the answer to the
  unknown name \<^verbatim>\<open>summarize\<close> is the locked notice, which is no error notice.
\<close>

theorem unknown_tool_locked_counterexample:
  "ascii ''summarize'' \<notin> set catalog
   \<and> result (call_tool (sample_config None) offline (ascii ''summarize'') [] fresh)
     = Inr [TextContent (locked_notice (sample_config None) (ascii ''summarize''))]
   \<and> \<not> is_error_notice (locked_notice (sample_config None) (ascii ''summarize''))"
proof -
  have n: "ascii ''summarize'' \<noteq> ascii ''search_papers''"
    by (simp add: ascii_def)
  have "\<not> is_error_notice (locked_notice (sample_config None) (ascii ''summarize''))"
    by (simp add: is_error_notice_def locked_notice_def warning_sign_def cross_mark_def)
  then show ?thesis
    by (simp add: summarize_unknown call_tool_locked [OF n not_entitled_without_key])
qed

subsection \<open>search_papers\<close>

lemma collaborator_calls_subprocess:
  "collaborator_calls [SubprocessRun cmd] = [SubprocessRun cmd]"
  by (simp add: collaborator_calls_def)

lemma collaborator_calls_Nil: "collaborator_calls [] = []"
  by (simp add: collaborator_calls_def)

lemma search_papers_calls:
  assumes "map_of args (ascii ''query'') = Some q"
    and "(if \<not> truthy is_pro then py_min (args_get args (ascii ''max_results'') (PInt 10)) 5
          else Inr (args_get args (ascii ''max_results'') (PInt 10))) = Inr m"
  shows "calls (search_papers w is_pro args s)
         = (case search_prompt w q m of
              Inl e \<Rightarrow> []
            | Inr p \<Rightarrow> [SubprocessRun (cite_agent [PStr p])])"
  unfolding search_papers_def
  by (simp add: io_bind_lift io_bind_perform io_return_def args_item_def assms
           split: sum.splits)


lemma search_calls:
  assumes "passes_gate cfg w s (ascii ''search_papers'')"
    and "map_of args (ascii ''query'') = Some q"
    and "(if \<not> truthy (gate_value cfg w s)
          then py_min (args_get args (ascii ''max_results'') (PInt 10)) 5
          else Inr (args_get args (ascii ''max_results'') (PInt 10))) = Inr m"
  shows "collaborator_calls (calls (call_tool cfg w (ascii ''search_papers'') args s))
         = (case search_prompt w q m of
              Inl e \<Rightarrow> []
            | Inr p \<Rightarrow> [SubprocessRun (cite_agent [PStr p])])"
  by (simp add: call_tool_passes [OF assms(1)] collaborator_calls_gate call_tool_try_def
        search_papers_calls [OF assms(2,3)] collaborator_calls_subprocess
        collaborator_calls_Nil split: sum.splits)

lemma entitlement_gate_value:
  assumes "entitlement cfg w s = Some b"
  shows "passes_gate cfg w s (ascii ''search_papers'')" and "truthy (gate_value cfg w s) = b"
  using assms
  by (auto simp: passes_gate_def entitlement_def gate_value_def split: sum.splits)

lemma search_prompt_count:
  "search_prompt w q (PInt n)
   = (case py_str w q of
        Inl e \<Rightarrow> Inl e
      | Inr qs \<Rightarrow>
          (case str_int n of
             Inl e \<Rightarrow> Inl e
           | Inr c \<Rightarrow> Inr (ascii ''Find academic papers on: '' @ qs @ ascii ''. Show '' @ c
                           @ ascii '' results.'')))"
  by (simp add: search_prompt_def exn_bind_def py_str_def split: sum.splits)

lemma bound_above_1000: "(1000::int) \<le> str_digits_bound"
proof -
  have "(1000::int) = 10 ^ 3"
    by simp
  also have "\<dots> \<le> 10 ^ 4300"
    by (rule power_increasing) simp_all
  finally show ?thesis
    unfolding str_digits_bound_def .
qed

lemma small_below_bound: "\<bar>n\<bar> \<le> 10 \<Longrightarrow> \<bar>n\<bar> < str_digits_bound"
  using bound_above_1000 by linarith

lemma str_int_small: "\<bar>n\<bar> < str_digits_bound \<Longrightarrow> str_int n = Inr (decimal n)"
  by (simp add: str_int_def)


lemma decimal_5: "decimal 5 = ascii ''5''"
  by (simp add: decimal_def digits.simps ascii_def)

lemma search_calls_free:
  assumes "map_of args (ascii ''query'') = Some q"
    and "map_of args (ascii ''max_results'') = Some (PInt n)"
    and "5 < n"
    and "entitlement cfg w s = Some False"
  shows "collaborator_calls (calls (call_tool cfg w (ascii ''search_papers'') args s))
         = (case py_str w q of
              Inl e \<Rightarrow> []
            | Inr qs \<Rightarrow>
                [SubprocessRun (cite_agent
                   [PStr (ascii ''Find academic papers on: '' @ qs
                          @ ascii ''. Show 5 results.'')])])"
proof -
  have m: "(if \<not> truthy (gate_value cfg w s)
            then py_min (args_get args (ascii ''max_results'') (PInt 10)) 5
            else Inr (args_get args (ascii ''max_results'') (PInt 10))) = Inr (PInt 5)"
    using assms(2,3) entitlement_gate_value(2) [OF assms(4)]
    by (simp add: py_min_def int_lt_def args_get_def)
  have five: "str_int 5 = Inr (ascii ''5'')"
    using str_int_small [of 5] small_below_bound [of 5] by (simp add: decimal_5)
  have shown: "ascii ''. Show '' @ ascii ''5'' @ ascii '' results.'' = ascii ''. Show 5 results.''"
    by (simp add: ascii_def)
  show ?thesis
    by (simp add: search_calls [OF entitlement_gate_value(1) [OF assms(4)] assms(1) m]
          search_prompt_count five shown split: sum.splits)
qed

lemma search_calls_pro:
  assumes "map_of args (ascii ''query'') = Some q"
    and "map_of args (ascii ''max_results'') = Some (PInt n)"
    and "entitlement cfg w s = Some True"
    and "\<bar>n\<bar> < str_digits_bound"
  shows "collaborator_calls (calls (call_tool cfg w (ascii ''search_papers'') args s))
         = (case py_str w q of
              Inl e \<Rightarrow> []
            | Inr qs \<Rightarrow>
                [SubprocessRun (cite_agent
                   [PStr (ascii ''Find academic papers on: '' @ qs
                          @ ascii ''. Show '' @ decimal n @ ascii '' results.'')])])"
proof -
  have m: "(if \<not> truthy (gate_value cfg w s)
            then py_min (args_get args (ascii ''max_results'') (PInt 10)) 5
            else Inr (args_get args (ascii ''max_results'') (PInt 10))) = Inr (PInt n)"
    using assms(2) entitlement_gate_value(2) [OF assms(3)]
    by (simp add: args_get_def)
  show ?thesis
    by (simp add: search_calls [OF entitlement_gate_value(1) [OF assms(3)] assms(1) m]
          search_prompt_count str_int_small [OF assms(4)] split: sum.splits)
qed

text \<open>
  Claim C4. For \<^verbatim>\<open>search_papers\<close> with a query and a requested count above 5: without
  entitlement the command handed to the subprocess asks for exactly 5 results; with
  entitlement a count up to 10 is handed over as requested. (When the query has no text
  form the command is never built and no subprocess is started.)
\<close>

theorem search_count_clamped:
  assumes "map_of args (ascii ''query'') = Some q"
    and "map_of args (ascii ''max_results'') = Some (PInt n)"
    and "5 < n"
  shows "(entitlement cfg w s = Some False \<longrightarrow>
            collaborator_calls (calls (call_tool cfg w (ascii ''search_papers'') args s))
              = (case py_str w q of
                   Inl e \<Rightarrow> []
                 | Inr qs \<Rightarrow>
                     [SubprocessRun (cite_agent
                        [PStr (ascii ''Find academic papers on: '' @ qs
                               @ ascii ''. Show 5 results.'')])]))
         \<and> (entitlement cfg w s = Some True \<and> n \<le> 10 \<longrightarrow>
            collaborator_calls (calls (call_tool cfg w (ascii ''search_papers'') args s))
              = (case py_str w q of
                   Inl e \<Rightarrow> []
                 | Inr qs \<Rightarrow>
                     [SubprocessRun (cite_agent
                        [PStr (ascii ''Find academic papers on: '' @ qs
                               @ ascii ''. Show '' @ decimal n @ ascii '' results.'')])]))"
proof (intro conjI impI)
  assume "entitlement cfg w s = Some False"
  then show "collaborator_calls (calls (call_tool cfg w (ascii ''search_papers'') args s))
              = (case py_str w q of
                   Inl e \<Rightarrow> []
                 | Inr qs \<Rightarrow>
                     [SubprocessRun (cite_agent
                        [PStr (ascii ''Find academic papers on: '' @ qs
                               @ ascii ''. Show 5 results.'')])])"
    by (rule search_calls_free [OF assms])
next
  assume a: "entitlement cfg w s = Some True \<and> n \<le> 10"
  with assms(3) have "\<bar>n\<bar> \<le> 10"
    by simp
  then have "\<bar>n\<bar> < str_digits_bound"
    by (rule small_below_bound)
  with a show "collaborator_calls (calls (call_tool cfg w (ascii ''search_papers'') args s))
              = (case py_str w q of
                   Inl e \<Rightarrow> []
                 | Inr qs \<Rightarrow>
                     [SubprocessRun (cite_agent
                        [PStr (ascii ''Find academic papers on: '' @ qs
                               @ ascii ''. Show '' @ decimal n @ ascii '' results.'')])])"
    using search_calls_pro [OF assms(1,2)] by blast
qed

lemma sample_arguments:
  "map_of [(ascii ''query'', PStr (ascii ''transformer architecture'')),
           (ascii ''max_results'', PInt n)] (ascii ''query'')
     = Some (PStr (ascii ''transformer architecture''))"
  "map_of [(ascii ''query'', PStr (ascii ''transformer architecture'')),
           (ascii ''max_results'', PInt n)] (ascii ''max_results'') = Some (PInt n)"
  by (simp_all add: ascii_def)

theorem search_count_clamped_witness:
  "collaborator_calls (calls (call_tool (sample_config None) offline
      (ascii ''search_papers'')
      [(ascii ''query'', PStr (ascii ''transformer architecture'')),
       (ascii ''max_results'', PInt 20)] fresh))
     = [SubprocessRun [PStr (ascii ''cite-agent''),
          PStr (ascii ''Find academic papers on: transformer architecture. Show 5 results.'')]]
   \<and> collaborator_calls (calls (call_tool (sample_config (Some (ascii ''KEY-1234''))) licensed
      (ascii ''search_papers'')
      [(ascii ''query'', PStr (ascii ''transformer architecture'')),
       (ascii ''max_results'', PInt 8)] fresh))
     = [SubprocessRun [PStr (ascii ''cite-agent''),
          PStr (ascii ''Find academic papers on: transformer architecture. Show 8 results.'')]]"
proof -
  have s8: "decimal 8 = ascii ''8''"
    by (simp add: decimal_def digits.simps ascii_def)
  have a: "collaborator_calls (calls (call_tool (sample_config None) offline
      (ascii ''search_papers'')
      [(ascii ''query'', PStr (ascii ''transformer architecture'')),
       (ascii ''max_results'', PInt 20)] fresh))
     = (case py_str offline (PStr (ascii ''transformer architecture'')) of
          Inl e \<Rightarrow> []
        | Inr qs \<Rightarrow>
            [SubprocessRun (cite_agent
               [PStr (ascii ''Find academic papers on: '' @ qs @ ascii ''. Show 5 results.'')])])"
    using search_count_clamped [OF sample_arguments, of 20 "sample_config None" offline fresh]
      not_entitled_without_key [of offline fresh]
    by simp
  have b: "collaborator_calls (calls (call_tool (sample_config (Some (ascii ''KEY-1234'')))
      licensed (ascii ''search_papers'')
      [(ascii ''query'', PStr (ascii ''transformer architecture'')),
       (ascii ''max_results'', PInt 8)] fresh))
     = (case py_str licensed (PStr (ascii ''transformer architecture'')) of
          Inl e \<Rightarrow> []
        | Inr qs \<Rightarrow>
            [SubprocessRun (cite_agent
               [PStr (ascii ''Find academic papers on: '' @ qs
                      @ ascii ''. Show '' @ decimal 8 @ ascii '' results.'')])])"
    using search_count_clamped [OF sample_arguments, of 8
        "sample_config (Some (ascii ''KEY-1234''))" licensed fresh] entitled_licensed [of fresh]
    by simp
  show ?thesis
    unfolding a b
    by (simp add: cite_agent_def py_str_def s8 ascii_def)
qed





subsection \<open>Exceptions of the delegation\<close>

lemma io_bind_insert_core_path:
  "io_bind (insert_core_path cfg) f s = f () (s\<lparr>sys_path := add_core_path cfg (sys_path s)\<rparr>)"
  by (simp add: io_bind_def insert_core_path_def)

lemma io_bind_import:
  "io_bind (import_from w name) f s =
     (case fst (import_module w name (sys_path s) (sys_modules s)) of
        Inl e \<Rightarrow>
          \<lparr>result = Inl e, calls = [Import name],
           state_after = s\<lparr>sys_modules := snd (import_module w name (sys_path s) (sys_modules s))\<rparr>\<rparr>
      | Inr u \<Rightarrow>
          \<lparr>result = result (f u (s\<lparr>sys_modules :=
                                      snd (import_module w name (sys_path s) (sys_modules s))\<rparr>)),
           calls = Import name
                   # calls (f u (s\<lparr>sys_modules :=
                                      snd (import_module w name (sys_path s) (sys_modules s))\<rparr>)),
           state_after = state_after (f u (s\<lparr>sys_modules :=
                                      snd (import_module w name (sys_path s) (sys_modules s))\<rparr>))\<rparr>)"
  by (simp add: io_bind_def import_from_def split: sum.splits)

lemma research_deep_dive_result:
  "result (research_deep_dive cfg w args s) =
     Inr (case result (deep_dive_try cfg w args s) of
            Inl e \<Rightarrow> [TextContent (integration_error e)] | Inr r \<Rightarrow> r)"
  by (simp add: research_deep_dive_def io_catch_return)

lemma get_zotero_papers_result:
  "result (get_zotero_papers w args s) =
     Inr (case result (zotero_try w args s) of
            Inl e \<Rightarrow> [TextContent (zotero_error e)] | Inr r \<Rightarrow> r)"
  by (simp add: get_zotero_papers_def io_catch_return)

lemma fault_is_reported:
  assumes "passes_gate cfg w s name"
    and "delegation_fault cfg w s (gate_value cfg w s) name args = Some e"
  shows "result (call_tool cfg w name args s) = Inr [TextContent (error_notice name e)]"
proof -
  have r: "result (call_tool cfg w name args s)
           = Inr (case result (call_tool_try cfg w (gate_value cfg w s) name args s) of
                    Inl e \<Rightarrow> [TextContent (system_error e)] | Inr r \<Rightarrow> r)"
    by (simp add: call_tool_passes [OF assms(1)])
  consider (deep) "name = ascii ''research_deep_dive''"
    | (zotero) "name = ascii ''get_zotero_papers''"
    | (other) "name \<noteq> ascii ''research_deep_dive''" "name \<noteq> ascii ''get_zotero_papers''"
    by blast
  then show ?thesis
  proof cases
    case deep
    with assms(2) have "result (deep_dive_try cfg w args s) = Inl e"
      by (simp add: delegation_fault_def split: sum.splits)
    with deep show ?thesis
      unfolding r
      by (simp add: call_tool_try_def tool_names_distinct
            research_deep_dive_result error_notice_def)
  next
    case zotero
    with assms(2) have "result (zotero_try w args s) = Inl e"
      by (simp add: delegation_fault_def tool_names_distinct split: sum.splits)
    with zotero show ?thesis
      unfolding r
      by (simp add: call_tool_try_def tool_names_distinct
            get_zotero_papers_result error_notice_def)
  next
    case other
    with assms(2)
    have "result (call_tool_try cfg w (gate_value cfg w s) name args s) = Inl e"
      by (simp add: delegation_fault_def split: sum.splits)
    with other show ?thesis
      unfolding r
      by (simp add: error_notice_def)
  qed
qed

lemma error_notice_is_error: "is_error_notice (error_notice name e)"
  by (simp add: is_error_notice_def error_notice_def system_error_def integration_error_def
        zotero_error_def)


subsection \<open>A missing required key\<close>

lemma omits_required_key_cases:
  assumes "omits_required_key name args"
  shows "name = ascii ''search_papers'' \<and> map_of args (ascii ''query'') = None
       \<or> name = ascii ''research_deep_dive'' \<and> map_of args (ascii ''question'') = None
       \<or> name = ascii ''get_zotero_papers'' \<and> map_of args (ascii ''query'') = None
       \<or> name = ascii ''read_arxiv_pdf'' \<and> map_of args (ascii ''url_or_id'') = None
       \<or> name = ascii ''verify_citation'' \<and> map_of args (ascii ''citation'') = None
       \<or> name = ascii ''get_financial_data'' \<and> map_of args (ascii ''query'') = None"
  using assms
  by (auto simp: omits_required_key_def list_tools_def)

lemma search_papers_missing:
  "map_of args (ascii ''query'') = None \<Longrightarrow>
     search_papers w is_pro args s
       = \<lparr>result = Inl (Exn ''KeyError'' (quoted (ascii ''query''))), calls = [],
          state_after = s\<rparr>"
  by (simp add: search_papers_def io_bind_lift args_item_def)

lemma verify_citation_missing:
  "map_of args (ascii ''citation'') = None \<Longrightarrow>
     verify_citation w args s
       = \<lparr>result = Inl (Exn ''KeyError'' (quoted (ascii ''citation''))), calls = [],
          state_after = s\<rparr>"
  by (simp add: verify_citation_def io_bind_lift args_item_def)

lemma get_financial_data_missing:
  "map_of args (ascii ''query'') = None \<Longrightarrow>
     get_financial_data w args s
       = \<lparr>result = Inl (Exn ''KeyError'' (quoted (ascii ''query''))), calls = [],
          state_after = s\<rparr>"
  by (simp add: get_financial_data_def io_bind_lift args_item_def)

lemma read_arxiv_pdf_missing:
  "map_of args (ascii ''url_or_id'') = None \<Longrightarrow> \<exists>e. result (read_arxiv_pdf w args s) = Inl e"
  by (simp add: read_arxiv_pdf_def io_bind_import io_bind_lift args_item_def split: sum.splits)

lemma deep_dive_try_missing:
  "map_of args (ascii ''question'') = None \<Longrightarrow> \<exists>e. result (deep_dive_try cfg w args s) = Inl e"
  by (simp add: deep_dive_try_def io_bind_insert_core_path io_bind_import io_bind_lift
        io_bind_perform args_item_def split: sum.splits)

lemma zotero_try_missing:
  "map_of args (ascii ''query'') = None \<Longrightarrow> \<exists>e. result (zotero_try w args s) = Inl e"
  by (simp add: zotero_try_def io_bind_import io_bind_lift io_bind_perform args_item_def
        split: sum.splits)

lemma missing_key_faults:
  assumes "omits_required_key name args"
  shows "\<exists>e. delegation_fault cfg w s is_pro name args = Some e"
proof -
  from omits_required_key_cases [OF assms]
  consider (search) "name = ascii ''search_papers''" "map_of args (ascii ''query'') = None"
    | (deep) "name = ascii ''research_deep_dive''" "map_of args (ascii ''question'') = None"
    | (zotero) "name = ascii ''get_zotero_papers''" "map_of args (ascii ''query'') = None"
    | (arxiv) "name = ascii ''read_arxiv_pdf''" "map_of args (ascii ''url_or_id'') = None"
    | (cite) "name = ascii ''verify_citation''" "map_of args (ascii ''citation'') = None"
    | (fin) "name = ascii ''get_financial_data''" "map_of args (ascii ''query'') = None"
    by (elim disjE conjE) simp_all
  then show ?thesis
  proof cases
    case search
    then show ?thesis
      by (simp add: delegation_fault_def call_tool_try_def search_papers_missing
            tool_names_distinct [symmetric])
  next
    case deep
    with deep_dive_try_missing [of args cfg w s] show ?thesis
      by (auto simp: delegation_fault_def)
  next
    case zotero
    with zotero_try_missing [of args w s] show ?thesis
      by (auto simp: delegation_fault_def tool_names_distinct)
  next
    case arxiv
    with read_arxiv_pdf_missing [of args w s] show ?thesis
      by (auto simp: delegation_fault_def call_tool_try_def tool_names_distinct)
  next
    case cite
    then show ?thesis
      by (simp add: delegation_fault_def call_tool_try_def verify_citation_missing
            tool_names_distinct)
  next
    case fin
    then show ?thesis
      by (simp add: delegation_fault_def call_tool_try_def get_financial_data_missing
            tool_names_distinct)
  qed
qed

text \<open>
  Claim C9 (as the code has it). For every invocation that passes the gate and whose
  arguments omit a key its tool requires, the dispatcher returns an error notice: the text
  of the exception that ended the delegation, which no validation precedes.
\<close>

theorem missing_key_error_notice:
  assumes "passes_gate cfg w s name" and "omits_required_key name args"
  shows "\<exists>e. delegation_fault cfg w s (gate_value cfg w s) name args = Some e
             \<and> result (call_tool cfg w name args s) = Inr [TextContent (error_notice name e)]
             \<and> is_error_notice (error_notice name e)"
  using missing_key_faults [OF assms(2)] fault_is_reported [OF assms(1)] error_notice_is_error
  by blast

theorem missing_key_error_notice_witness:
  "passes_gate (sample_config None) offline fresh (ascii ''search_papers'')
   \<and> omits_required_key (ascii ''search_papers'') [(ascii ''max_results'', PInt 3)]
   \<and> call_tool (sample_config None) offline (ascii ''search_papers'')
        [(ascii ''max_results'', PInt 3)] fresh
      = \<lparr>result = Inr [TextContent (cross_mark @ ascii '' System Error: ''
                                      @ quoted (ascii ''query''))],
         calls = [], state_after = fresh\<rparr>"
proof -
  have g: "passes_gate (sample_config None) offline fresh (ascii ''search_papers'')"
    by (simp add: passes_gate_def not_entitled_without_key)
  have m: "map_of [(ascii ''max_results'', PInt 3)] (ascii ''query'') = None"
    by (simp add: ascii_def)
  then have o: "omits_required_key (ascii ''search_papers'') [(ascii ''max_results'', PInt 3)]"
    by (simp add: omits_required_key_def list_tools_def)
  have c: "call_tool (sample_config None) offline (ascii ''search_papers'')
        [(ascii ''max_results'', PInt 3)] fresh
      = \<lparr>result = Inr [TextContent (cross_mark @ ascii '' System Error: ''
                                      @ quoted (ascii ''query''))],
         calls = [], state_after = fresh\<rparr>"
    by (subst call_tool_passes [OF g])
       (simp add: call_tool_try_def search_papers_missing [OF m] system_error_def
          validate_license_key_def sample_config_def io_return_def)
  from missing_key_error_notice [OF g o] g o c show ?thesis
    by blast
qed

text \<open>
  Claim C9, counterexample to the claim as worded: without a credential,
  \<^verbatim>\<open>verify_citation\<close> called with no \<^verbatim>\<open>citation\<close> gets the locked notice, not an
  error notice.
\<close>

theorem missing_key_locked_counterexample:
  "omits_required_key (ascii ''verify_citation'') []
   \<and> result (call_tool (sample_config None) offline (ascii ''verify_citation'') [] fresh)
       = Inr [TextContent (locked_notice (sample_config None) (ascii ''verify_citation''))]
   \<and> \<not> is_error_notice (locked_notice (sample_config None) (ascii ''verify_citation''))"
proof -
  have o: "omits_required_key (ascii ''verify_citation'') []"
    by (simp add: omits_required_key_def list_tools_def)
  have r: "result (call_tool (sample_config None) offline (ascii ''verify_citation'') [] fresh)
       = Inr [TextContent (locked_notice (sample_config None) (ascii ''verify_citation''))]"
    by (simp add: call_tool_locked [OF tool_names_distinct(7) not_entitled_without_key])
  have n: "\<not> is_error_notice (locked_notice (sample_config None) (ascii ''verify_citation''))"
    by (simp add: is_error_notice_def locked_notice_def warning_sign_def cross_mark_def)
  from o r n show ?thesis
    by simp
qed

subsection \<open>read_arxiv_pdf\<close>

lemma extract_loop_state: "state_after (extract_loop pages idx acc s) = s"
  by (induction idx arbitrary: acc) (simp_all add: io_return_def io_bind_perform split: sum.splits)

lemma extract_loop_calls:
  "ev \<in> set (calls (extract_loop pages idx acc s)) \<Longrightarrow> \<exists>i \<in> set idx. ev = ExtractText i"
  by (induction idx arbitrary: acc)
     (auto simp: io_return_def io_bind_perform split: sum.splits)

lemma extract_loop_texts:
  "map ((!) pages) idx = map Inr texts \<Longrightarrow>
     extract_loop pages idx acc s
       = \<lparr>result = Inr (acc @ concat texts), calls = map ExtractText idx, state_after = s\<rparr>"
proof (induction idx arbitrary: acc texts)
  case Nil
  then show ?case by (simp add: io_return_def)
next
  case (Cons i rest)
  then obtain t ts where "texts = t # ts" "pages ! i = Inr t" "map ((!) pages) rest = map Inr ts"
    by (cases texts) auto
  with Cons.IH [of ts "acc @ t"] show ?case
    by (simp add: io_bind_perform)
qed

lemma extract_loop_result:
  "result (extract_loop pages idx acc s) = Inr text \<Longrightarrow>
     \<exists>texts. map ((!) pages) idx = map Inr texts \<and> text = acc @ concat texts"
proof (induction idx arbitrary: acc)
  case Nil
  then show ?case by (simp add: io_return_def)
next
  case (Cons i rest)
  from Cons.prems obtain t where t: "pages ! i = Inr t"
    by (cases "pages ! i") (simp_all add: io_bind_perform)
  with Cons.prems have "result (extract_loop pages rest (acc @ t) s) = Inr text"
    by (simp add: io_bind_perform)
  from Cons.IH [OF this] obtain ts
    where "map ((!) pages) rest = map Inr ts" "text = (acc @ t) @ concat ts"
    by blast
  with t have "map ((!) pages) (i # rest) = map Inr (t # ts) \<and> text = acc @ concat (t # ts)"
    by simp
  then show ?case
    by blast
qed

lemma first_indices: "map ((!) pages) [0 ..< min 10 (length pages)] = take 10 pages"
  by (simp add: list_eq_iff_nth_eq min.commute)

lemma io_bind_map:
  "io_bind m (\<lambda>x. io_return (g x)) s =
     \<lparr>result = (case result (m s) of Inl e \<Rightarrow> Inl e | Inr x \<Rightarrow> Inr (g x)),
      calls = calls (m s), state_after = state_after (m s)\<rparr>"
  by (simp add: io_bind_def io_return_def split: sum.splits)

lemma download_state: "state_after (download_and_extract w url s) = s"
  by (simp add: download_and_extract_def io_bind_perform io_bind_map io_lift_def
        extract_loop_state split: sum.splits)

lemma download_calls:
  assumes "ev \<in> set (calls (download_and_extract w url s))"
  shows "ev = HttpGet url \<or> (\<exists>bytes. ev = PdfReader bytes) \<or> (\<exists>i < 10. ev = ExtractText i)"
proof -
  have loop: "\<exists>i < 10. ev = ExtractText i"
    if "ev \<in> set (calls (extract_loop pages [0 ..< min 10 (length pages)] [] s))" for pages
    using extract_loop_calls [OF that] by auto
  from assms show ?thesis
    by (auto simp: download_and_extract_def io_bind_perform io_bind_map io_lift_def
          dest: loop split: sum.splits if_splits)
qed

lemma download_result:
  assumes "result (download_and_extract w url s) = Inr r"
  shows "(\<exists>c. r = [TextContent (download_failed c)])
       \<or> (\<exists>resp pages texts.
            http_get w url = Inr resp \<and> status_code resp = 200
            \<and> pdf_reader w (content resp) = Inr pages
            \<and> take 10 pages = map Inr texts
            \<and> r = [TextContent (pdf_text (concat texts))])"
proof -
  from assms obtain resp where resp: "http_get w url = Inr resp"
    by (cases "http_get w url") (simp_all add: download_and_extract_def io_bind_perform)
  show ?thesis
  proof (cases "status_code resp = 200")
    case False
    with assms resp show ?thesis
      by (auto simp: download_and_extract_def io_bind_perform io_bind_map io_lift_def
            split: sum.splits)
  next
    case True
    with assms resp obtain pages where pages: "pdf_reader w (content resp) = Inr pages"
      by (cases "pdf_reader w (content resp)")
         (simp_all add: download_and_extract_def io_bind_perform)
    with assms resp True obtain body
      where body: "result (extract_loop pages [0 ..< min 10 (length pages)] [] s) = Inr body"
        and r: "r = [TextContent (pdf_text body)]"
      by (cases "result (extract_loop pages [0 ..< min 10 (length pages)] [] s)")
         (simp_all add: download_and_extract_def io_bind_perform io_bind_map)
    from extract_loop_result [OF body] obtain texts
      where "take 10 pages = map Inr texts" "body = concat texts"
      by (auto simp: first_indices)
    with resp True pages r show ?thesis
      by blast
  qed
qed

lemma download_success:
  assumes "http_get w url = Inr resp" and "status_code resp = 200"
    and "pdf_reader w (content resp) = Inr pages" and "take 10 pages = map Inr texts"
  shows "download_and_extract w url s
         = \<lparr>result = Inr [TextContent (pdf_text (concat texts))],
            calls = [HttpGet url, PdfReader (content resp)]
                    @ map ExtractText [0 ..< min 10 (length pages)],
            state_after = s\<rparr>"
proof -
  have "map ((!) pages) [0 ..< min 10 (length pages)] = map Inr texts"
    using assms(4) by (simp add: first_indices)
  from extract_loop_texts [OF this, of "[]" s] assms(1-3) show ?thesis
    by (simp add: download_and_extract_def io_bind_perform io_bind_map)
qed

text \<open>The address that the branch requests for an identifier.\<close>

lemma read_arxiv_pdf_run:
  "read_arxiv_pdf w args s =
     io_bind (import_from w (ascii ''io'')) (\<lambda>_.
     io_bind (import_from w (ascii ''PyPDF2'')) (\<lambda>_.
       case map_of args (ascii ''url_or_id'') of
         None \<Rightarrow> io_lift (Inl (Exn ''KeyError'' (quoted (ascii ''url_or_id''))))
       | Some (PStr u) \<Rightarrow>
           with_client w PdfClient
             (download_and_extract w
                (PStr (if prefix (ascii ''http'') u then u else arxiv_url u)))
       | Some v \<Rightarrow>
           io_lift (Inl (Exn ''AttributeError''
             (quoted (type_name v) @ ascii '' object has no attribute ''
              @ quoted (ascii ''startswith'')))))) s"
proof -
  have "io_bind (io_lift (args_item args (ascii ''url_or_id''))) (\<lambda>url.
          io_bind (io_lift (py_startswith url (ascii ''http''))) (\<lambda>starts_http.
          io_bind (io_lift (if \<not> starts_http
                            then exn_bind (py_str w url) (\<lambda>ident. Inr (PStr (arxiv_url ident)))
                            else Inr url)) (\<lambda>url.
            with_client w PdfClient (download_and_extract w url))))
        = (case map_of args (ascii ''url_or_id'') of
             None \<Rightarrow> io_lift (Inl (Exn ''KeyError'' (quoted (ascii ''url_or_id''))))
           | Some (PStr u) \<Rightarrow>
               with_client w PdfClient
                 (download_and_extract w
                    (PStr (if prefix (ascii ''http'') u then u else arxiv_url u)))
           | Some v \<Rightarrow>
           io_lift (Inl (Exn ''AttributeError''
             (quoted (type_name v) @ ascii '' object has no attribute ''
              @ quoted (ascii ''startswith'')))))"
    by (rule ext)
       (simp add: io_bind_lift args_item_def py_startswith_def py_str_def exn_bind_def
          io_lift_def split: option.splits pyval.splits)
  then show ?thesis
    by (simp add: read_arxiv_pdf_def)
qed

lemma with_client_calls:
  "ev \<in> set (calls (with_client w c body s)) \<Longrightarrow> ev \<in> set (calls (body s))"
  by (simp add: with_client_run split: sum.splits)

lemma with_client_result:
  "result (with_client w c body s) = Inr r \<Longrightarrow> result (body s) = Inr r"
  by (simp add: with_client_run split: sum.splits)

lemma with_client_ok:
  "client_new w c = Inr () \<Longrightarrow> client_close w c = Inr () \<Longrightarrow> with_client w c body s = body s"
  by (simp add: with_client_run)

lemma read_arxiv_pdf_calls:
  assumes "ev \<in> set (calls (read_arxiv_pdf w args s))"
  shows "(\<exists>name. ev = Import name)
       \<or> (\<exists>u. map_of args (ascii ''url_or_id'') = Some (PStr u)
              \<and> ev = HttpGet (PStr (if prefix (ascii ''http'') u then u else arxiv_url u)))
       \<or> (\<exists>bytes. ev = PdfReader bytes)
       \<or> (\<exists>i < 10. ev = ExtractText i)"
  using assms unfolding read_arxiv_pdf_run
  by (auto simp: io_bind_import io_lift_def
        split: sum.splits option.splits pyval.splits
        dest!: with_client_calls download_calls)

lemma read_arxiv_pdf_result:
  assumes "result (read_arxiv_pdf w args s) = Inr r"
  shows "(\<exists>c. r = [TextContent (download_failed c)])
       \<or> (\<exists>u resp pages texts.
            map_of args (ascii ''url_or_id'') = Some (PStr u)
            \<and> http_get w (PStr (if prefix (ascii ''http'') u then u else arxiv_url u)) = Inr resp
            \<and> status_code resp = 200
            \<and> pdf_reader w (content resp) = Inr pages
            \<and> take 10 pages = map Inr texts
            \<and> r = [TextContent (pdf_text (concat texts))])"
  using assms unfolding read_arxiv_pdf_run
  by (auto simp: io_bind_import io_lift_def
        split: sum.splits option.splits pyval.splits
        dest!: with_client_result download_result)

lemma read_arxiv_pdf_success:
  assumes "imports_succeed w [ascii ''io'', ascii ''PyPDF2''] s"
    and "map_of args (ascii ''url_or_id'') = Some (PStr u)"
    and "client_new w PdfClient = Inr ()" and "client_close w PdfClient = Inr ()"
    and "http_get w (PStr (if prefix (ascii ''http'') u then u else arxiv_url u)) = Inr resp"
    and "status_code resp = 200"
    and "pdf_reader w (content resp) = Inr pages"
    and "take 10 pages = map Inr texts"
  shows "result (read_arxiv_pdf w args s) = Inr [TextContent (pdf_text (concat texts))]"
proof -
  define url where "url = PStr (if prefix (ascii ''http'') u then u else arxiv_url u)"
  have d: "with_client w PdfClient (download_and_extract w url) s'
           = \<lparr>result = Inr [TextContent (pdf_text (concat texts))],
              calls = [HttpGet url, PdfReader (content resp)]
                      @ map ExtractText [0 ..< min 10 (length pages)],
              state_after = s'\<rparr>" for s'
    unfolding url_def
    by (simp only: with_client_ok [OF assms(3,4)] download_success [OF assms(5-8)])
  from assms(1,2) show ?thesis
    unfolding read_arxiv_pdf_run
    by (simp add: io_bind_import url_def [symmetric] d split: sum.splits)
qed

lemma gate_calls_post:
  "ev \<in> set (calls (validate_license_key cfg w key s)) \<Longrightarrow> \<exists>url kvs. ev = HttpPost url kvs"
  using gate_calls [of cfg w key s]
  by (cases ev) (auto simp: collaborator_calls_def filter_empty_conv)

lemma call_tool_cases:
  obtains (raises) e where "call_tool cfg w name args s =
              \<lparr>result = Inl e, calls = calls (validate_license_key cfg w (API_KEY cfg) s),
               state_after = s\<rparr>"
  | (locked) "name \<noteq> ascii ''search_papers''" "entitlement cfg w s = Some False"
  | (passes) "passes_gate cfg w s name"
proof (cases "result (validate_license_key cfg w (API_KEY cfg) s)")
  case (Inl e)
  from call_tool_gate_raises [OF this] show ?thesis
    by (rule raises)
next
  case (Inr v)
  show ?thesis
  proof (cases "name = ascii ''search_papers'' \<or> truthy v")
    case True
    with Inr have "passes_gate cfg w s name"
      by (auto simp: passes_gate_def entitlement_def)
    then show ?thesis
      by (rule passes)
  next
    case False
    with Inr have "name \<noteq> ascii ''search_papers''" "entitlement cfg w s = Some False"
      by (simp_all add: entitlement_def)
    then show ?thesis
      by (rule locked)
  qed
qed

lemma arxiv_calls:
  assumes "ev \<in> set (calls (call_tool cfg w (ascii ''read_arxiv_pdf'') args s))"
  shows "(\<exists>url kvs. ev = HttpPost url kvs)
       \<or> ev \<in> set (calls (read_arxiv_pdf w args s))"
proof (cases rule: call_tool_cases [of cfg w "ascii ''read_arxiv_pdf''" args s])
  case (raises e)
  with assms gate_calls_post show ?thesis
    by fastforce
next
  case locked
  with assms gate_calls_post show ?thesis
    by (fastforce simp: call_tool_locked)
next
  case passes
  with assms gate_calls_post show ?thesis
    by (fastforce simp: call_tool_passes call_tool_try_def tool_names_distinct)
qed

lemma arxiv_result:
  assumes "result (call_tool cfg w (ascii ''read_arxiv_pdf'') args s) = Inr [TextContent t]"
  shows "t = locked_notice cfg (ascii ''read_arxiv_pdf'')
       \<or> (\<exists>e. t = system_error e)
       \<or> result (read_arxiv_pdf w args s) = Inr [TextContent t]"
proof (cases rule: call_tool_cases [of cfg w "ascii ''read_arxiv_pdf''" args s])
  case (raises e)
  with assms show ?thesis
    by simp
next
  case locked
  with assms show ?thesis
    by (simp add: call_tool_locked)
next
  case passes
  with assms show ?thesis
    by (cases "result (read_arxiv_pdf w args s)")
       (auto simp: call_tool_passes call_tool_try_def tool_names_distinct)
qed

lemma arxiv_success:
  assumes "entitlement cfg w s = Some True"
    and "result (read_arxiv_pdf w args s) = Inr r"
  shows "result (call_tool cfg w (ascii ''read_arxiv_pdf'') args s) = Inr r"
proof -
  from assms(1) have "passes_gate cfg w s (ascii ''read_arxiv_pdf'')"
    by (simp add: passes_gate_def)
  with assms(2) show ?thesis
    by (simp add: call_tool_passes call_tool_try_def tool_names_distinct)
qed

text \<open>
  Claim C8 (as the code has it). For every invocation of \<^verbatim>\<open>read_arxiv_pdf\<close>: the
  only address requested is the given string itself when it begins with the four
  characters \<^verbatim>\<open>http\<close>, and else the canonical arXiv address of the identifier; text is
  extracted only from pages with index below 10; a text that is returned is the locked
  notice, a System Error notice, the download failure notice, or the fixed header, the
  first 15000 characters of the concatenated texts of the first pages (ten at most), and
  three dots. The last is what an entitled call returns whenever the imports, the client,
  the download with status 200, the reader and the extraction of those pages succeed.
\<close>

theorem read_arxiv_pdf_text:
  "(\<forall>x. HttpGet x \<in> set (calls (call_tool cfg w (ascii ''read_arxiv_pdf'') args s)) \<longrightarrow>
        (\<exists>u. map_of args (ascii ''url_or_id'') = Some (PStr u)
             \<and> x = PStr (if prefix (ascii ''http'') u then u else arxiv_url u)))
   \<and> (\<forall>i. ExtractText i \<in> set (calls (call_tool cfg w (ascii ''read_arxiv_pdf'') args s))
          \<longrightarrow> i < 10)
   \<and> (\<forall>t. result (call_tool cfg w (ascii ''read_arxiv_pdf'') args s) = Inr [TextContent t] \<longrightarrow>
          t = locked_notice cfg (ascii ''read_arxiv_pdf'')
          \<or> (\<exists>e. t = system_error e)
          \<or> (\<exists>c. t = download_failed c)
          \<or> (\<exists>u resp pages texts.
                map_of args (ascii ''url_or_id'') = Some (PStr u)
                \<and> http_get w (PStr (if prefix (ascii ''http'') u then u else arxiv_url u))
                    = Inr resp
                \<and> status_code resp = 200
                \<and> pdf_reader w (content resp) = Inr pages
                \<and> take 10 pages = map Inr texts
                \<and> t = pdf_text (concat texts)))
   \<and> (\<forall>u resp pages texts.
          entitlement cfg w s = Some True
          \<and> imports_succeed w [ascii ''io'', ascii ''PyPDF2''] s
          \<and> map_of args (ascii ''url_or_id'') = Some (PStr u)
          \<and> client_new w PdfClient = Inr () \<and> client_close w PdfClient = Inr ()
          \<and> http_get w (PStr (if prefix (ascii ''http'') u then u else arxiv_url u)) = Inr resp
          \<and> status_code resp = 200
          \<and> pdf_reader w (content resp) = Inr pages
          \<and> take 10 pages = map Inr texts
          \<longrightarrow> result (call_tool cfg w (ascii ''read_arxiv_pdf'') args s)
              = Inr [TextContent (pdf_text (concat texts))])"
proof (intro conjI allI impI)
  fix x
  assume "HttpGet x \<in> set (calls (call_tool cfg w (ascii ''read_arxiv_pdf'') args s))"
  from arxiv_calls [OF this] have "HttpGet x \<in> set (calls (read_arxiv_pdf w args s))"
    by simp
  from read_arxiv_pdf_calls [OF this]
  show "\<exists>u. map_of args (ascii ''url_or_id'') = Some (PStr u)
             \<and> x = PStr (if prefix (ascii ''http'') u then u else arxiv_url u)"
    by simp
next
  fix i
  assume "ExtractText i \<in> set (calls (call_tool cfg w (ascii ''read_arxiv_pdf'') args s))"
  from arxiv_calls [OF this] have "ExtractText i \<in> set (calls (read_arxiv_pdf w args s))"
    by simp
  from read_arxiv_pdf_calls [OF this] show "i < 10"
    by simp
next
  fix t
  assume "result (call_tool cfg w (ascii ''read_arxiv_pdf'') args s) = Inr [TextContent t]"
  from arxiv_result [OF this]
  consider "t = locked_notice cfg (ascii ''read_arxiv_pdf'')" | "\<exists>e. t = system_error e"
    | "result (read_arxiv_pdf w args s) = Inr [TextContent t]"
    by blast
  then show "t = locked_notice cfg (ascii ''read_arxiv_pdf'')
          \<or> (\<exists>e. t = system_error e)
          \<or> (\<exists>c. t = download_failed c)
          \<or> (\<exists>u resp pages texts.
                map_of args (ascii ''url_or_id'') = Some (PStr u)
                \<and> http_get w (PStr (if prefix (ascii ''http'') u then u else arxiv_url u))
                    = Inr resp
                \<and> status_code resp = 200
                \<and> pdf_reader w (content resp) = Inr pages
                \<and> take 10 pages = map Inr texts
                \<and> t = pdf_text (concat texts))"
  proof cases
    case 1
    then show ?thesis by blast
  next
    case 2
    then show ?thesis by blast
  next
    case 3
    from read_arxiv_pdf_result [OF this] show ?thesis
    proof (elim disjE exE conjE)
      fix c
      assume "[TextContent t] = [TextContent (download_failed c)]"
      then have "\<exists>c. t = download_failed c" by blast
      then show ?thesis by blast
    next
      fix u resp pages texts
      assume "map_of args (ascii ''url_or_id'') = Some (PStr u)"
        and "http_get w (PStr (if prefix (ascii ''http'') u then u else arxiv_url u)) = Inr resp"
        and "status_code resp = 200"
        and "pdf_reader w (content resp) = Inr pages"
        and "take 10 pages = map Inr texts"
        and "[TextContent t] = [TextContent (pdf_text (concat texts))]"
      then have "\<exists>u resp pages texts.
                map_of args (ascii ''url_or_id'') = Some (PStr u)
                \<and> http_get w (PStr (if prefix (ascii ''http'') u then u else arxiv_url u))
                    = Inr resp
                \<and> status_code resp = 200
                \<and> pdf_reader w (content resp) = Inr pages
                \<and> take 10 pages = map Inr texts
                \<and> t = pdf_text (concat texts)"
        by (intro exI [of _ u] exI [of _ resp] exI [of _ pages] exI [of _ texts]) simp
      then show ?thesis by blast
    qed
  qed
next
  fix u resp pages texts
  assume a: "entitlement cfg w s = Some True
          \<and> imports_succeed w [ascii ''io'', ascii ''PyPDF2''] s
          \<and> map_of args (ascii ''url_or_id'') = Some (PStr u)
          \<and> client_new w PdfClient = Inr () \<and> client_close w PdfClient = Inr ()
          \<and> http_get w (PStr (if prefix (ascii ''http'') u then u else arxiv_url u)) = Inr resp
          \<and> status_code resp = 200
          \<and> pdf_reader w (content resp) = Inr pages
          \<and> take 10 pages = map Inr texts"
  then have h: "imports_succeed w [ascii ''io'', ascii ''PyPDF2''] s"
      "map_of args (ascii ''url_or_id'') = Some (PStr u)"
      "client_new w PdfClient = Inr ()" "client_close w PdfClient = Inr ()"
      "http_get w (PStr (if prefix (ascii ''http'') u then u else arxiv_url u)) = Inr resp"
      "status_code resp = 200"
      "pdf_reader w (content resp) = Inr pages"
      "take 10 pages = map Inr texts"
    by blast+
  have "result (read_arxiv_pdf w args s) = Inr [TextContent (pdf_text (concat texts))]"
    by (rule read_arxiv_pdf_success [OF h])
  with a show "result (call_tool cfg w (ascii ''read_arxiv_pdf'') args s)
              = Inr [TextContent (pdf_text (concat texts))]"
    by (simp add: arxiv_success)
qed

lemmas arxiv_defs = arxiv_world_def long_world_def sample_defs

lemma entitled_arxiv:
  "entitlement (sample_config (Some (ascii ''KEY-1234''))) arxiv_world s = Some True"
  "entitlement (sample_config (Some (ascii ''KEY-1234''))) long_world s = Some True"
  by (simp_all add: entitlement_def arxiv_defs gate_eval ascii_def)

lemma arxiv_gate_calls:
  "calls (validate_license_key (sample_config (Some (ascii ''KEY-1234''))) arxiv_world
            (API_KEY (sample_config (Some (ascii ''KEY-1234'')))) s)
   = [HttpPost verify_url (verify_data (sample_config (Some (ascii ''KEY-1234'')))
                                       (ascii ''KEY-1234''))]"
  by (simp add: arxiv_defs gate_eval ascii_def)

lemma arxiv_imports:
  "imports_succeed arxiv_world names s"
  "imports_succeed long_world names s"
  by (induction names arbitrary: s) (simp_all add: arxiv_defs)

lemma collaborator_calls_Cons:
  "collaborator_calls (ev # t)
   = (if is_collaborator_call ev then ev # collaborator_calls t else collaborator_calls t)"
  by (simp add: collaborator_calls_def)

lemma sample_length: "length sample_pages = 12"
  by (simp add: sample_pages_def)

lemma arxiv_import:
  "import_module arxiv_world name path loaded = (Inr (), loaded @ [name])"
  "import_module long_world name path loaded = (Inr (), loaded @ [name])"
  by (simp_all add: arxiv_defs)

lemma arxiv_argument:
  "map_of [(ascii ''url_or_id'', PStr u)] (ascii ''url_or_id'') = Some (PStr u)"
  by simp

lemma arxiv_address:
  "(if prefix (ascii ''http'') (ascii ''2308.07901'') then ascii ''2308.07901''
    else arxiv_url (ascii ''2308.07901'')) = ascii ''https://arxiv.org/pdf/2308.07901.pdf''"
  by (simp add: arxiv_url_def ascii_def)

lemma arxiv_download:
  "http_get arxiv_world (PStr (if prefix (ascii ''http'') (ascii ''2308.07901'')
                               then ascii ''2308.07901'' else arxiv_url (ascii ''2308.07901'')))
   = Inr \<lparr>status_code = 200, content = [37, 80, 68, 70], json = Inl offline_error\<rparr>"
  "http_get long_world (PStr (if prefix (ascii ''http'') (ascii ''2308.07901'')
                               then ascii ''2308.07901'' else arxiv_url (ascii ''2308.07901'')))
   = Inr \<lparr>status_code = 200, content = [37, 80, 68, 70], json = Inl offline_error\<rparr>"
  unfolding arxiv_address by (simp_all add: arxiv_defs)

lemma arxiv_clients:
  "client_new arxiv_world c = Inr ()" "client_close arxiv_world c = Inr ()"
  "client_new long_world c = Inr ()" "client_close long_world c = Inr ()"
  by (simp_all add: arxiv_defs)

lemma arxiv_pages:
  "pdf_reader arxiv_world bytes = Inr sample_pages"
  "take 10 sample_pages
   = map Inr [ascii ''A'', ascii ''B'', ascii ''C'', ascii ''D'', ascii ''E'',
              ascii ''F'', ascii ''G'', ascii ''H'', ascii ''I'', ascii ''J'']"
  "pdf_reader long_world bytes = Inr [Inr (replicate 20000 65)]"
  "take 10 [Inr (replicate 20000 65)] = map Inr [replicate 20000 65]"
  by (simp_all add: arxiv_defs sample_pages_def)

lemma arxiv_run_calls:
  "calls (call_tool (sample_config (Some (ascii ''KEY-1234''))) arxiv_world
            (ascii ''read_arxiv_pdf'') [(ascii ''url_or_id'', PStr (ascii ''2308.07901''))] fresh)
   = [HttpPost verify_url (verify_data (sample_config (Some (ascii ''KEY-1234'')))
                                       (ascii ''KEY-1234'')),
      Import (ascii ''io''), Import (ascii ''PyPDF2''),
      HttpGet (PStr (ascii ''https://arxiv.org/pdf/2308.07901.pdf'')),
      PdfReader [37, 80, 68, 70]]
     @ map ExtractText [0 ..< 10]"
proof -
  have g: "passes_gate (sample_config (Some (ascii ''KEY-1234''))) arxiv_world fresh
             (ascii ''read_arxiv_pdf'')"
    by (simp add: passes_gate_def entitled_arxiv)
  have d: "with_client arxiv_world PdfClient
             (download_and_extract arxiv_world
                (PStr (ascii ''https://arxiv.org/pdf/2308.07901.pdf''))) s'
           = \<lparr>result = Inr [TextContent (pdf_text (concat
                  [ascii ''A'', ascii ''B'', ascii ''C'', ascii ''D'', ascii ''E'',
                   ascii ''F'', ascii ''G'', ascii ''H'', ascii ''I'', ascii ''J'']))],
              calls = [HttpGet (PStr (ascii ''https://arxiv.org/pdf/2308.07901.pdf'')),
                       PdfReader [37, 80, 68, 70]]
                      @ map ExtractText [0 ..< 10],
              state_after = s'\<rparr>" for s'
    using download_success [OF arxiv_download(1) [unfolded arxiv_address] _ arxiv_pages(1,2),
        of s']
    by (simp add: with_client_ok [OF arxiv_clients(1,2)] sample_length)
  have r: "calls (read_arxiv_pdf arxiv_world [(ascii ''url_or_id'', PStr (ascii ''2308.07901''))]
             fresh)
           = [Import (ascii ''io''), Import (ascii ''PyPDF2''),
              HttpGet (PStr (ascii ''https://arxiv.org/pdf/2308.07901.pdf'')),
              PdfReader [37, 80, 68, 70]]
             @ map ExtractText [0 ..< 10]"
    unfolding read_arxiv_pdf_run arxiv_argument
    by (simp add: io_bind_import d arxiv_import arxiv_address)
  show ?thesis
    unfolding call_tool_passes [OF g] arxiv_gate_calls
    by (simp add: call_tool_try_def tool_names_distinct r)
qed

theorem read_arxiv_pdf_text_witness:
  "entitlement (sample_config (Some (ascii ''KEY-1234''))) arxiv_world fresh = Some True
   \<and> HttpGet (PStr (ascii ''https://arxiv.org/pdf/2308.07901.pdf''))
       \<in> set (calls (call_tool (sample_config (Some (ascii ''KEY-1234''))) arxiv_world
            (ascii ''read_arxiv_pdf'') [(ascii ''url_or_id'', PStr (ascii ''2308.07901''))] fresh))
   \<and> ExtractText 9
       \<in> set (calls (call_tool (sample_config (Some (ascii ''KEY-1234''))) arxiv_world
            (ascii ''read_arxiv_pdf'') [(ascii ''url_or_id'', PStr (ascii ''2308.07901''))] fresh))
   \<and> ExtractText 10
       \<notin> set (calls (call_tool (sample_config (Some (ascii ''KEY-1234''))) arxiv_world
            (ascii ''read_arxiv_pdf'') [(ascii ''url_or_id'', PStr (ascii ''2308.07901''))] fresh))
   \<and> length sample_pages = 12
   \<and> result (call_tool (sample_config (Some (ascii ''KEY-1234''))) arxiv_world
        (ascii ''read_arxiv_pdf'') [(ascii ''url_or_id'', PStr (ascii ''2308.07901''))] fresh)
     = Inr [TextContent (page_sign @ ascii '' **Full Text (First 10 pages)**'' @ [10, 10]
                         @ ascii ''ABCDEFGHIJ...'')]
   \<and> result (call_tool (sample_config (Some (ascii ''KEY-1234''))) long_world
        (ascii ''read_arxiv_pdf'') [(ascii ''url_or_id'', PStr (ascii ''2308.07901''))] fresh)
     = Inr [TextContent (page_sign @ ascii '' **Full Text (First 10 pages)**'' @ [10, 10]
                         @ replicate 15000 65 @ ascii ''...'')]"
proof -
  let ?cfg = "sample_config (Some (ascii ''KEY-1234''))"
  let ?args = "[(ascii ''url_or_id'', PStr (ascii ''2308.07901''))]"
  note t = read_arxiv_pdf_text [of ?cfg arxiv_world ?args fresh,
      THEN conjunct2, THEN conjunct2, THEN conjunct2, rule_format,
      of "ascii ''2308.07901''"
         "\<lparr>status_code = 200, content = [37, 80, 68, 70], json = Inl offline_error\<rparr>"
         sample_pages
         "[ascii ''A'', ascii ''B'', ascii ''C'', ascii ''D'', ascii ''E'',
           ascii ''F'', ascii ''G'', ascii ''H'', ascii ''I'', ascii ''J'']"]
  note l = read_arxiv_pdf_text [of ?cfg long_world ?args fresh,
      THEN conjunct2, THEN conjunct2, THEN conjunct2, rule_format,
      of "ascii ''2308.07901''"
         "\<lparr>status_code = 200, content = [37, 80, 68, 70], json = Inl offline_error\<rparr>"
         "[Inr (replicate 20000 65)]" "[replicate 20000 65]"]
  have a: "result (call_tool ?cfg arxiv_world (ascii ''read_arxiv_pdf'') ?args fresh)
           = Inr [TextContent (pdf_text (concat
                  [ascii ''A'', ascii ''B'', ascii ''C'', ascii ''D'', ascii ''E'',
                   ascii ''F'', ascii ''G'', ascii ''H'', ascii ''I'', ascii ''J'']))]"
    by (rule t)
       (intro conjI entitled_arxiv(1) arxiv_imports(1) arxiv_argument arxiv_clients(1,2)
          arxiv_download(1) arxiv_pages(1,2), simp)
  have b: "result (call_tool ?cfg long_world (ascii ''read_arxiv_pdf'') ?args fresh)
           = Inr [TextContent (pdf_text (concat [replicate 20000 65]))]"
    by (rule l)
       (intro conjI entitled_arxiv(2) arxiv_imports(2) arxiv_argument arxiv_clients(3,4)
          arxiv_download(2) arxiv_pages(3,4), simp)
  have pa: "pdf_text (concat
                  [ascii ''A'', ascii ''B'', ascii ''C'', ascii ''D'', ascii ''E'',
                   ascii ''F'', ascii ''G'', ascii ''H'', ascii ''I'', ascii ''J''])
            = page_sign @ ascii '' **Full Text (First 10 pages)**'' @ [10, 10]
              @ ascii ''ABCDEFGHIJ...''"
    by (simp add: pdf_text_def ascii_def)
  have pb: "pdf_text (concat [replicate 20000 65])
            = page_sign @ ascii '' **Full Text (First 10 pages)**'' @ [10, 10]
              @ replicate 15000 65 @ ascii ''...''"
    by (simp add: pdf_text_def)
  have c: "HttpGet (PStr (ascii ''https://arxiv.org/pdf/2308.07901.pdf''))
             \<in> set (calls (call_tool ?cfg arxiv_world (ascii ''read_arxiv_pdf'') ?args fresh))"
    "ExtractText 9
             \<in> set (calls (call_tool ?cfg arxiv_world (ascii ''read_arxiv_pdf'') ?args fresh))"
    "ExtractText 10
             \<notin> set (calls (call_tool ?cfg arxiv_world (ascii ''read_arxiv_pdf'') ?args fresh))"
    unfolding arxiv_run_calls by auto
  from a [unfolded pa] b [unfolded pb] c sample_length entitled_arxiv(1) [of fresh]
  show ?thesis
    by (intro conjI)
qed

text \<open>
  Claim C8, counterexample to the claim as worded: the identifier
  \<^verbatim>\<open>httpbin-2308.07901\<close> is no URL, yet it is not interpolated into the canonical
  address: the request goes to the identifier as it was given.
\<close>

theorem url_test_counterexample:
  "\<not> spec_is_url (ascii ''httpbin-2308.07901'')
   \<and> collaborator_calls
       (calls (call_tool (sample_config (Some (ascii ''KEY-1234''))) arxiv_world
          (ascii ''read_arxiv_pdf'') [(ascii ''url_or_id'', PStr (ascii ''httpbin-2308.07901''))]
          fresh))
     = [Import (ascii ''io''), Import (ascii ''PyPDF2''),
        HttpGet (PStr (ascii ''httpbin-2308.07901''))]
   \<and> arxiv_url (ascii ''httpbin-2308.07901'')
     = ascii ''https://arxiv.org/pdf/httpbin-2308.07901.pdf''"
proof -
  let ?cfg = "sample_config (Some (ascii ''KEY-1234''))"
  have g: "passes_gate ?cfg arxiv_world fresh (ascii ''read_arxiv_pdf'')"
    by (simp add: passes_gate_def entitled_arxiv)
  have p: "prefix (ascii ''http'') (ascii ''httpbin-2308.07901'')"
    by (simp add: ascii_def)
  have h: "http_get arxiv_world (PStr (ascii ''httpbin-2308.07901'')) = Inl offline_error"
    by (simp add: arxiv_defs ascii_def)
  have r: "calls (read_arxiv_pdf arxiv_world
                    [(ascii ''url_or_id'', PStr (ascii ''httpbin-2308.07901''))] fresh)
           = [Import (ascii ''io''), Import (ascii ''PyPDF2''),
              HttpGet (PStr (ascii ''httpbin-2308.07901''))]"
    unfolding read_arxiv_pdf_run arxiv_argument
    by (simp add: io_bind_import p with_client_ok [OF arxiv_clients(1,2)]
          download_and_extract_def io_bind_perform h arxiv_import)
  have c: "collaborator_calls
       (calls (call_tool ?cfg arxiv_world
          (ascii ''read_arxiv_pdf'') [(ascii ''url_or_id'', PStr (ascii ''httpbin-2308.07901''))]
          fresh))
     = [Import (ascii ''io''), Import (ascii ''PyPDF2''),
        HttpGet (PStr (ascii ''httpbin-2308.07901''))]"
    unfolding call_tool_passes [OF g]
    by (simp add: collaborator_calls_gate call_tool_try_def tool_names_distinct r
          collaborator_calls_Cons collaborator_calls_Nil)
  have s: "\<not> spec_is_url (ascii ''httpbin-2308.07901'')"
    by (simp add: spec_is_url_def ascii_def)
  have u: "arxiv_url (ascii ''httpbin-2308.07901'')
           = ascii ''https://arxiv.org/pdf/httpbin-2308.07901.pdf''"
    by (simp add: arxiv_url_def ascii_def)
  from s c u show ?thesis
    by (intro conjI)
qed

subsection \<open>What an invocation reads and leaves behind\<close>

lemma call_tool_run:
  "call_tool cfg w name args s =
     (case result (validate_license_key cfg w (API_KEY cfg) s) of
        Inl e \<Rightarrow>
          \<lparr>result = Inl e, calls = calls (validate_license_key cfg w (API_KEY cfg) s),
           state_after = s\<rparr>
      | Inr is_pro \<Rightarrow>
          if name \<noteq> ascii ''search_papers'' \<and> \<not> truthy is_pro
          then \<lparr>result = Inr [TextContent (locked_notice cfg name)],
                calls = calls (validate_license_key cfg w (API_KEY cfg) s), state_after = s\<rparr>
          else \<lparr>result = Inr (case result (call_tool_try cfg w is_pro name args s) of
                                 Inl e \<Rightarrow> [TextContent (system_error e)] | Inr r \<Rightarrow> r),
                calls = calls (validate_license_key cfg w (API_KEY cfg) s)
                        @ calls (call_tool_try cfg w is_pro name args s),
                state_after = state_after (call_tool_try cfg w is_pro name args s)\<rparr>)"
proof (cases "result (validate_license_key cfg w (API_KEY cfg) s)")
  case (Inl e)
  then show ?thesis
    by (simp add: call_tool_gate_raises)
next
  case (Inr v)
  show ?thesis
  proof (cases "name = ascii ''search_papers'' \<or> truthy v")
    case True
    from call_tool_returns [OF Inr True] Inr True show ?thesis
      by auto
  next
    case False
    with Inr have "name \<noteq> ascii ''search_papers''" "entitlement cfg w s = Some False"
      by (simp_all add: entitlement_def)
    from call_tool_locked [OF this] Inr False show ?thesis
      by simp
  qed
qed

lemma gate_first:
  "prefix (calls (validate_license_key cfg w (API_KEY cfg) s))
          (calls (call_tool cfg w name args s))"
  by (simp add: call_tool_run split: sum.splits)

lemma gate_stateless:
  "validate_license_key cfg w key s
   = \<lparr>result = result (validate_license_key cfg w key s'),
      calls = calls (validate_license_key cfg w key s'), state_after = s\<rparr>"
proof -
  have "validate_license_key cfg w key s
        = \<lparr>result = result (validate_license_key cfg w key s),
           calls = calls (validate_license_key cfg w key s),
           state_after = state_after (validate_license_key cfg w key s)\<rparr>"
    by simp
  also have "\<dots> = \<lparr>result = result (validate_license_key cfg w key s'),
                     calls = calls (validate_license_key cfg w key s'), state_after = s\<rparr>"
    using gate_ignores_state [of cfg w key s s'] by (simp add: gate_state)
  finally show ?thesis .
qed

lemma search_papers_stateless:
  "search_papers w is_pro args s
   = \<lparr>result = result (search_papers w is_pro args s'),
      calls = calls (search_papers w is_pro args s'), state_after = s\<rparr>"
  by (simp add: search_papers_def io_bind_lift io_bind_perform io_return_def
        split: sum.splits)

lemma verify_citation_stateless:
  "verify_citation w args s
   = \<lparr>result = result (verify_citation w args s'),
      calls = calls (verify_citation w args s'), state_after = s\<rparr>"
  by (simp add: verify_citation_def io_bind_lift io_bind_perform io_return_def
        split: sum.splits)

lemma get_financial_data_stateless:
  "get_financial_data w args s
   = \<lparr>result = result (get_financial_data w args s'),
      calls = calls (get_financial_data w args s'), state_after = s\<rparr>"
  by (simp add: get_financial_data_def io_bind_lift io_bind_perform io_return_def
        split: sum.splits)

lemma importing_tools_names:
  "name \<notin> set importing_tools \<longleftrightarrow>
     name \<noteq> ascii ''research_deep_dive'' \<and> name \<noteq> ascii ''get_zotero_papers''
     \<and> name \<noteq> ascii ''read_arxiv_pdf''"
  by (simp add: importing_tools_def)

lemma call_tool_try_stateless:
  assumes "name \<notin> set importing_tools"
  shows "call_tool_try cfg w is_pro name args s
         = \<lparr>result = result (call_tool_try cfg w is_pro name args s'),
            calls = calls (call_tool_try cfg w is_pro name args s'), state_after = s\<rparr>"
proof -
  from assms have n: "name \<noteq> ascii ''research_deep_dive''"
      "name \<noteq> ascii ''get_zotero_papers''" "name \<noteq> ascii ''read_arxiv_pdf''"
    by (simp_all add: importing_tools_names)
  show ?thesis
    unfolding call_tool_try_def
    using n search_papers_stateless [of w is_pro args s s']
      verify_citation_stateless [of w args s s'] get_financial_data_stateless [of w args s s']
    by (simp add: io_lift_def)
qed

lemma passes_gate_stateless: "passes_gate cfg w s name = passes_gate cfg w s' name"
  using gate_ignores_state(1) [of cfg w "API_KEY cfg" s s']
  by (simp add: passes_gate_def entitlement_def)

lemma call_tool_stateless:
  assumes "name \<notin> set importing_tools \<or> \<not> passes_gate cfg w s name"
  shows "call_tool cfg w name args s
         = \<lparr>result = result (call_tool cfg w name args s'),
            calls = calls (call_tool cfg w name args s'), state_after = s\<rparr>"
proof (cases "passes_gate cfg w s name")
  case False
  then have f: "\<not> passes_gate cfg w s' name"
    by (simp add: passes_gate_stateless [of cfg w s' name s])
  from False f show ?thesis
    unfolding call_tool_run [of cfg w name args s] call_tool_run [of cfg w name args s']
    using gate_ignores_state [of cfg w "API_KEY cfg" s s']
    by (auto simp: passes_gate_def entitlement_def split: sum.splits)
next
  case True
  with assms have n: "name \<notin> set importing_tools"
    by simp
  from True have t: "passes_gate cfg w s' name"
    by (simp add: passes_gate_stateless [of cfg w s' name s])
  have v: "gate_value cfg w s = gate_value cfg w s'"
    using gate_ignores_state(1) [of cfg w "API_KEY cfg" s s'] by (simp add: gate_value_def)
  show ?thesis
    unfolding call_tool_passes [OF True] call_tool_passes [OF t] v
    using call_tool_try_stateless [OF n, of cfg w "gate_value cfg w s'" args s s']
      gate_ignores_state(2) [of cfg w "API_KEY cfg" s s']
    by simp
qed

lemma deep_dive_try_sys_path:
  "sys_path (state_after (deep_dive_try cfg w args s)) = add_core_path cfg (sys_path s)"
  by (simp add: deep_dive_try_def io_bind_insert_core_path io_bind_import io_bind_perform
        io_bind_lift io_return_def split: sum.splits)

lemma zotero_try_sys_path: "sys_path (state_after (zotero_try w args s)) = sys_path s"
  by (simp add: zotero_try_def io_bind_import io_bind_perform io_bind_lift io_return_def
        split: sum.splits)

lemma with_client_state:
  "state_after (with_client w c body s) = (case client_new w c of Inl e \<Rightarrow> s
                                           | Inr u \<Rightarrow> state_after (body s))"
  by (simp add: with_client_run split: sum.splits)

lemma read_arxiv_pdf_sys_path:
  "sys_path (state_after (read_arxiv_pdf w args s)) = sys_path s"
  unfolding read_arxiv_pdf_run
  by (simp add: io_bind_import io_lift_def with_client_state download_state
        split: sum.splits option.splits pyval.splits)

lemma call_tool_try_sys_path:
  "sys_path (state_after (call_tool_try cfg w is_pro name args s))
   = (if name = ascii ''research_deep_dive'' then add_core_path cfg (sys_path s)
      else sys_path s)"
proof -
  consider (deep) "name = ascii ''research_deep_dive''"
    | (zotero) "name = ascii ''get_zotero_papers''"
    | (arxiv) "name = ascii ''read_arxiv_pdf''"
    | (plain) "name \<notin> set importing_tools"
    by (auto simp: importing_tools_names)
  then show ?thesis
  proof cases
    case deep
    then show ?thesis
      by (simp add: call_tool_try_def tool_names_distinct research_deep_dive_def
            io_catch_return deep_dive_try_sys_path)
  next
    case zotero
    then show ?thesis
      by (simp add: call_tool_try_def tool_names_distinct get_zotero_papers_def
            io_catch_return zotero_try_sys_path)
  next
    case arxiv
    then show ?thesis
      by (simp add: call_tool_try_def tool_names_distinct read_arxiv_pdf_sys_path)
  next
    case plain
    from call_tool_try_stateless [OF this, of cfg w is_pro args s s]
    have "state_after (call_tool_try cfg w is_pro name args s) = s"
      by (metis outcome.select_convs(3))
    with plain show ?thesis
      by (simp add: importing_tools_names)
  qed
qed

lemma call_tool_sys_path:
  "sys_path (state_after (call_tool cfg w name args s))
   = (if passes_gate cfg w s name \<and> name = ascii ''research_deep_dive''
      then add_core_path cfg (sys_path s) else sys_path s)"
  using tool_names_distinct(1)
  by (auto simp: call_tool_run call_tool_try_sys_path passes_gate_def entitlement_def
        split: sum.splits)

text \<open>
  Claim C7 (as the code has it). Every invocation calls the license gate first, and the
  gate neither reads nor changes the interpreter's module state, so that no entitlement
  value is retained. An invocation that the gate stops, and an invocation of a tool without
  import statement, neither reads nor changes that state: its result and its calls are
  determined by its name, its arguments, the configuration and the external responses.
  State is retained, though: an invocation of \<^verbatim>\<open>research_deep_dive\<close> that passes the
  gate leaves the core directory in the module search path, in front of what the path held
  unless it was there already.
\<close>

theorem invocation_state:
  "prefix (calls (validate_license_key cfg w (API_KEY cfg) s))
          (calls (call_tool cfg w name args s))
   \<and> validate_license_key cfg w key s
     = \<lparr>result = result (validate_license_key cfg w key s'),
        calls = calls (validate_license_key cfg w key s'), state_after = s\<rparr>
   \<and> (name \<notin> set importing_tools \<or> \<not> passes_gate cfg w s name \<longrightarrow>
        call_tool cfg w name args s
        = \<lparr>result = result (call_tool cfg w name args s'),
           calls = calls (call_tool cfg w name args s'), state_after = s\<rparr>)
   \<and> (passes_gate cfg w s (ascii ''research_deep_dive'') \<longrightarrow>
        sys_path (state_after (call_tool cfg w (ascii ''research_deep_dive'') args s))
        = add_core_path cfg (sys_path s)
        \<and> core_path cfg
            \<in> set (sys_path (state_after
                                (call_tool cfg w (ascii ''research_deep_dive'') args s))))"
proof (intro conjI impI)
  show "prefix (calls (validate_license_key cfg w (API_KEY cfg) s))
               (calls (call_tool cfg w name args s))"
    by (rule gate_first)
  show "validate_license_key cfg w key s
     = \<lparr>result = result (validate_license_key cfg w key s'),
        calls = calls (validate_license_key cfg w key s'), state_after = s\<rparr>"
    by (rule gate_stateless)
next
  assume "name \<notin> set importing_tools \<or> \<not> passes_gate cfg w s name"
  then show "call_tool cfg w name args s
        = \<lparr>result = result (call_tool cfg w name args s'),
           calls = calls (call_tool cfg w name args s'), state_after = s\<rparr>"
    by (rule call_tool_stateless)
next
  assume p: "passes_gate cfg w s (ascii ''research_deep_dive'')"
  then show d: "sys_path (state_after (call_tool cfg w (ascii ''research_deep_dive'') args s))
        = add_core_path cfg (sys_path s)"
    by (simp add: call_tool_sys_path)
  show "core_path cfg
          \<in> set (sys_path (state_after
                              (call_tool cfg w (ascii ''research_deep_dive'') args s)))"
    unfolding d by (simp add: add_core_path_def)
qed

lemma licensed_gate_calls:
  "calls (validate_license_key (sample_config (Some (ascii ''KEY-1234''))) licensed
            (API_KEY (sample_config (Some (ascii ''KEY-1234'')))) s)
   = [HttpPost verify_url (verify_data (sample_config (Some (ascii ''KEY-1234'')))
                                       (ascii ''KEY-1234''))]"
  by (simp add: sample_defs gate_eval ascii_def)

lemma licensed_passes:
  "passes_gate (sample_config (Some (ascii ''KEY-1234''))) licensed s name"
  by (simp add: passes_gate_def entitled_licensed)

lemma verify_citation_timeout:
  "verify_citation licensed [(ascii ''citation'', PStr (ascii ''Vaswani 2017''))] s
   = \<lparr>result = Inl timeout_error,
      calls = [SubprocessRun (cite_agent
                 [PStr (ascii ''Verify this citation: '' @ ascii ''Vaswani 2017'')])],
      state_after = s\<rparr>"
  by (simp add: verify_citation_def io_bind_lift io_bind_perform args_item_def py_str_def
        sample_defs)

theorem invocation_state_witness:
  "ascii ''verify_citation'' \<notin> set importing_tools
   \<and> call_tool (sample_config (Some (ascii ''KEY-1234''))) licensed (ascii ''verify_citation'')
        [(ascii ''citation'', PStr (ascii ''Vaswani 2017''))]
        \<lparr>sys_path = [ascii ''/srv/Cite-Agent''], sys_modules = []\<rparr>
     = \<lparr>result = Inr [TextContent (system_error timeout_error)],
        calls = [HttpPost verify_url (verify_data (sample_config (Some (ascii ''KEY-1234'')))
                                                  (ascii ''KEY-1234'')),
                 SubprocessRun (cite_agent
                   [PStr (ascii ''Verify this citation: '' @ ascii ''Vaswani 2017'')])],
        state_after = \<lparr>sys_path = [ascii ''/srv/Cite-Agent''], sys_modules = []\<rparr>\<rparr>
   \<and> passes_gate (sample_config (Some (ascii ''KEY-1234''))) licensed fresh
        (ascii ''research_deep_dive'')
   \<and> sys_path (state_after
        (call_tool (sample_config (Some (ascii ''KEY-1234''))) licensed
           (ascii ''research_deep_dive'')
           [(ascii ''question'', PStr (ascii ''What is attention?''))] fresh))
     = [ascii ''/srv/Cite-Agent'']"
proof -
  let ?cfg = "sample_config (Some (ascii ''KEY-1234''))"
  let ?s = "\<lparr>sys_path = [ascii ''/srv/Cite-Agent''], sys_modules = []\<rparr>"
  have n: "ascii ''verify_citation'' \<notin> set importing_tools"
    by (simp add: importing_tools_names tool_names_distinct)
  have f: "call_tool ?cfg licensed (ascii ''verify_citation'')
             [(ascii ''citation'', PStr (ascii ''Vaswani 2017''))] fresh
           = \<lparr>result = Inr [TextContent (system_error timeout_error)],
              calls = [HttpPost verify_url (verify_data ?cfg (ascii ''KEY-1234'')),
                       SubprocessRun (cite_agent
                         [PStr (ascii ''Verify this citation: '' @ ascii ''Vaswani 2017'')])],
              state_after = fresh\<rparr>"
    unfolding call_tool_passes [OF licensed_passes] licensed_gate_calls
    by (simp add: call_tool_try_def tool_names_distinct verify_citation_timeout)
  have a: "call_tool ?cfg licensed (ascii ''verify_citation'')
             [(ascii ''citation'', PStr (ascii ''Vaswani 2017''))] ?s
           = \<lparr>result = Inr [TextContent (system_error timeout_error)],
              calls = [HttpPost verify_url (verify_data ?cfg (ascii ''KEY-1234'')),
                       SubprocessRun (cite_agent
                         [PStr (ascii ''Verify this citation: '' @ ascii ''Vaswani 2017'')])],
              state_after = ?s\<rparr>"
    using invocation_state [of ?cfg licensed ?s "ascii ''verify_citation''"
        "[(ascii ''citation'', PStr (ascii ''Vaswani 2017''))]" None fresh] n
    by (simp add: f)
  have b: "sys_path (state_after
        (call_tool ?cfg licensed (ascii ''research_deep_dive'')
           [(ascii ''question'', PStr (ascii ''What is attention?''))] fresh))
     = add_core_path ?cfg (sys_path fresh)"
    using invocation_state [of ?cfg licensed fresh "ascii ''research_deep_dive''"
        "[(ascii ''question'', PStr (ascii ''What is attention?''))]" None fresh]
      licensed_passes [of fresh "ascii ''research_deep_dive''"]
    by simp
  have c: "add_core_path ?cfg (sys_path fresh) = [ascii ''/srv/Cite-Agent'']"
    by (simp add: add_core_path_def fresh_def sample_config_def)
  from n a b [unfolded c] licensed_passes [of fresh "ascii ''research_deep_dive''"]
  show ?thesis
    by (intro conjI)
qed

lemma core_world_fields:
  "import_module core_world name path loaded
   = (if name \<in> set loaded then (Inr (), loaded)
      else if ascii ''/srv/Cite-Agent'' \<in> set path then (Inr (), loaded @ [name])
      else (Inl (module_not_found name), loaded))"
  "agent_new core_world = Inl offline_error"
  "zotero_new core_world user key = Inl offline_error"
  "getenv core_world k = None"
  by (simp_all add: core_world_def sample_defs)

lemma entitled_core:
  "entitlement (sample_config (Some (ascii ''KEY-1234''))) core_world s = Some True"
  by (simp add: entitlement_def core_world_def sample_defs gate_eval ascii_def)

lemma core_passes:
  "passes_gate (sample_config (Some (ascii ''KEY-1234''))) core_world s name"
  by (simp add: passes_gate_def entitled_core)

text \<open>
  Claim C7, counterexample to the claim as worded. Where the packages are installed in
  the core directory only, an entitled \<^verbatim>\<open>research_deep_dive\<close> leaves the core directory
  on the module search path and its module loaded; the same \<^verbatim>\<open>get_zotero_papers\<close>
  call, with the same configuration and the same external responses, then has another
  result after that invocation than before it.
\<close>

theorem state_retained_counterexample:
  "state_after (call_tool (sample_config (Some (ascii ''KEY-1234''))) core_world
      (ascii ''research_deep_dive'') [(ascii ''question'', PStr (ascii ''What is attention?''))]
      fresh)
     = \<lparr>sys_path = [ascii ''/srv/Cite-Agent''],
        sys_modules = [ascii ''cite_agent.enhanced_ai_agent'']\<rparr>
   \<and> result (call_tool (sample_config (Some (ascii ''KEY-1234''))) core_world
        (ascii ''get_zotero_papers'') [(ascii ''query'', PStr (ascii ''attention''))] fresh)
     = Inr [TextContent (zotero_error (module_not_found (ascii ''pyzotero'')))]
   \<and> result (call_tool (sample_config (Some (ascii ''KEY-1234''))) core_world
        (ascii ''get_zotero_papers'') [(ascii ''query'', PStr (ascii ''attention''))]
        \<lparr>sys_path = [ascii ''/srv/Cite-Agent''],
         sys_modules = [ascii ''cite_agent.enhanced_ai_agent'']\<rparr>)
     = Inr [TextContent (zotero_error offline_error)]
   \<and> zotero_error (module_not_found (ascii ''pyzotero'')) \<noteq> zotero_error offline_error"
proof -
  let ?cfg = "sample_config (Some (ascii ''KEY-1234''))"
  let ?s = "\<lparr>sys_path = [ascii ''/srv/Cite-Agent''],
             sys_modules = [ascii ''cite_agent.enhanced_ai_agent'']\<rparr>"
  have p: "add_core_path ?cfg [] = [ascii ''/srv/Cite-Agent'']"
    by (simp add: add_core_path_def sample_config_def)
  have d: "state_after (deep_dive_try ?cfg core_world
             [(ascii ''question'', PStr (ascii ''What is attention?''))] fresh) = ?s"
    by (simp add: deep_dive_try_def io_bind_insert_core_path p io_bind_import
          core_world_fields io_bind_perform fresh_def)
  have a: "state_after (call_tool ?cfg core_world (ascii ''research_deep_dive'')
             [(ascii ''question'', PStr (ascii ''What is attention?''))] fresh) = ?s"
    unfolding call_tool_passes [OF core_passes]
    by (simp add: call_tool_try_def tool_names_distinct research_deep_dive_def
          io_catch_return d)
  have z1: "result (zotero_try core_world [(ascii ''query'', PStr (ascii ''attention''))] fresh)
            = Inl (module_not_found (ascii ''pyzotero''))"
    by (simp add: zotero_try_def io_bind_import core_world_fields fresh_def)
  have m: "ascii ''pyzotero'' \<noteq> ascii ''cite_agent.enhanced_ai_agent''"
    by (simp add: ascii_def)
  have z2: "result (zotero_try core_world [(ascii ''query'', PStr (ascii ''attention''))] ?s)
            = Inl offline_error"
    by (simp add: zotero_try_def io_bind_import core_world_fields m io_bind_perform)
  have b: "result (call_tool ?cfg core_world (ascii ''get_zotero_papers'')
             [(ascii ''query'', PStr (ascii ''attention''))] fresh)
           = Inr [TextContent (zotero_error (module_not_found (ascii ''pyzotero'')))]"
    unfolding call_tool_passes [OF core_passes]
    by (simp add: call_tool_try_def tool_names_distinct get_zotero_papers_result z1)
  have c: "result (call_tool ?cfg core_world (ascii ''get_zotero_papers'')
             [(ascii ''query'', PStr (ascii ''attention''))] ?s)
           = Inr [TextContent (zotero_error offline_error)]"
    unfolding call_tool_passes [OF core_passes]
    by (simp add: call_tool_try_def tool_names_distinct get_zotero_papers_result z2)
  have e: "zotero_error (module_not_found (ascii ''pyzotero'')) \<noteq> zotero_error offline_error"
    by (simp add: zotero_error_def module_not_found_def offline_error_def ascii_def)
  from a b c e show ?thesis
    by (intro conjI)
qed

end
